theory Spec2Isabelle
  imports Complex_Main "HOL-Library.Multiset"
begin

section \<open>JavaScript values\<close>

text \<open>
  The column store and the query engine are JavaScript classes (\<open>ColumnStore\<close>,
  \<open>QueryEngine\<close>). Their values are dynamically typed, so the embedding starts with
  the fragment of the JavaScript value space that the two classes handle.

  Numbers: a JavaScript number is an IEEE-754 double. \<open>Fin q\<close> is the double of value
  \<open>q\<close>, next to \<open>NaN\<close>, \<open>Infinity\<close> and \<open>-Infinity\<close>. Every arithmetic operation and every
  conversion from a string rounds its exact result to the nearest double, ties to even,
  and overflows to an infinity (\<open>roundDouble\<close> below). The two zeros are identified: the
  program divides by array lengths only and cannot tell them apart otherwise. The length
  of an array, a dictionary code and a count of rows are natural numbers that the source
  keeps below \<open>2^32\<close>, so they are doubles as they are.

  Strings: sequences of code units below 256.

  Objects as values: \<open>JObject i s\<close> is an ordinary object or function with identity \<open>i\<close>
  whose conversion to a primitive value is the string \<open>s\<close> that its \<open>toString\<close> returns.
  The program meets such values as the members a row inherits from
  \<open>Object.prototype\<close>. (Objects with a \<open>valueOf\<close> of their own, such as dates, are not
  modelled.)
\<close>

datatype jsnum = Fin rat | NaN | PosInf | NegInf

datatype jsval = JNull | JUndef | JBool bool | JNum jsnum | JStr string | JObject nat string

text \<open>Errors thrown by the source: \<open>new Error(message)\<close>, and the \<open>TypeError\<close> the
  runtime raises when a property of \<open>undefined\<close> is read.\<close>

datatype error = Error string | TypeError

text \<open>A JavaScript \<open>Map\<close> is an association list in insertion order, with keys compared
  by SameValueZero, which is equality on the modelled values: \<open>mapSet\<close> is
  \<open>Map.prototype.set\<close>, \<open>map_of\<close> is \<open>get\<close>. The own properties of an object are such a
  list too.\<close>

fun mapSet :: "('k \<times> 'v) list \<Rightarrow> 'k \<Rightarrow> 'v \<Rightarrow> ('k \<times> 'v) list" where
  "mapSet [] k v = [(k, v)]"
| "mapSet ((k', v') # m) k v = (if k' = k then (k, v) # m else (k', v') # mapSet m k v)"

definition mapHas :: "('k \<times> 'v) list \<Rightarrow> 'k \<Rightarrow> bool" where
  "mapHas m k = (map_of m k \<noteq> None)"

subsection \<open>Objects\<close>

text \<open>
  A row is an object: its own properties in insertion order, and its prototype, which is
  \<open>Object.prototype\<close> for an object literal and for the objects \<open>scan\<close> and \<open>aggregate\<close>
  create, or \<open>null\<close>. Reading a property looks at the own properties first and then at
  the twelve members of \<open>Object.prototype\<close>: eleven functions and the accessor
  \<open>__proto__\<close>, whose getter returns the prototype. A native function converts to the
  string \<open>function name() { [native code] }\<close>, \<open>Object.prototype\<close> to \<open>[object Object]\<close>.
\<close>

datatype prototype = ObjectPrototype | NullPrototype

record obj =
  ownProps :: "(string \<times> jsval) list"
  proto :: prototype

text \<open>The object literal \<open>{k1: v1, ...}\<close> (with no key \<open>__proto__\<close>).\<close>

definition plainObject :: "(string \<times> jsval) list \<Rightarrow> obj" where
  "plainObject ps = \<lparr> ownProps = ps, proto = ObjectPrototype \<rparr>"

definition nativeFunction :: "string \<Rightarrow> string" where
  "nativeFunction nm = ''function '' @ nm @ ''() { [native code] }''"

definition objectPrototypeValue :: jsval where
  "objectPrototypeValue = JObject 0 ''[object Object]''"

definition objectPrototypeMembers :: "(string \<times> jsval) list" where
  "objectPrototypeMembers =
     [(''constructor'', JObject 1 (nativeFunction ''Object'')),
      (''hasOwnProperty'', JObject 2 (nativeFunction ''hasOwnProperty'')),
      (''isPrototypeOf'', JObject 3 (nativeFunction ''isPrototypeOf'')),
      (''propertyIsEnumerable'', JObject 4 (nativeFunction ''propertyIsEnumerable'')),
      (''toLocaleString'', JObject 5 (nativeFunction ''toLocaleString'')),
      (''toString'', JObject 6 (nativeFunction ''toString'')),
      (''valueOf'', JObject 7 (nativeFunction ''valueOf'')),
      (''__defineGetter__'', JObject 8 (nativeFunction ''__defineGetter__'')),
      (''__defineSetter__'', JObject 9 (nativeFunction ''__defineSetter__'')),
      (''__lookupGetter__'', JObject 10 (nativeFunction ''__lookupGetter__'')),
      (''__lookupSetter__'', JObject 11 (nativeFunction ''__lookupSetter__'')),
      (''__proto__'', objectPrototypeValue)]"

text \<open>\<open>ob[k]\<close>\<close>

definition getProp :: "obj \<Rightarrow> string \<Rightarrow> jsval" where
  "getProp ob k =
     (case map_of (ownProps ob) k of
        Some v \<Rightarrow> v
      | None \<Rightarrow>
          (case proto ob of
             ObjectPrototype \<Rightarrow>
               (case map_of objectPrototypeMembers k of Some v \<Rightarrow> v | None \<Rightarrow> JUndef)
           | NullPrototype \<Rightarrow> JUndef))"

text \<open>
  \<open>ob[k] = v\<close>: an own property is written in place or appended. The one exception is
  the name \<open>__proto__\<close> on an object that inherits the accessor and has no own property
  of that name: the setter is called, and it makes \<open>null\<close> the prototype when \<open>v\<close> is
  \<open>null\<close>, and ignores a \<open>v\<close> that is not an object. (When \<open>v\<close> is an object it becomes the
  prototype; that is \<open>Object.prototype\<close> again when \<open>v\<close> was read from the accessor, and
  the members inherited from any other object are not modelled.)
\<close>

definition setProp :: "obj \<Rightarrow> string \<Rightarrow> jsval \<Rightarrow> obj" where
  "setProp ob k v =
     (if k = ''__proto__'' \<and> map_of (ownProps ob) k = None \<and> proto ob = ObjectPrototype
      then (if v = JNull then ob\<lparr> proto := NullPrototype \<rparr> else ob)
      else ob\<lparr> ownProps := mapSet (ownProps ob) k v \<rparr>)"

text \<open>\<open>Array\<close> reads out of range give \<open>undefined\<close>.\<close>

definition arrayGet :: "jsval list \<Rightarrow> nat \<Rightarrow> jsval" where
  "arrayGet xs i = (if i < length xs then xs ! i else JUndef)"

subsection \<open>Characters and strings\<close>

definition isDigit :: "char \<Rightarrow> bool" where
  "isDigit c = (c \<in> set ''0123456789'')"

definition isUpperChar :: "char \<Rightarrow> bool" where
  "isUpperChar c = (c \<in> set ''ABCDEFGHIJKLMNOPQRSTUVWXYZ'')"

definition isLowerChar :: "char \<Rightarrow> bool" where
  "isLowerChar c = (c \<in> set ''abcdefghijklmnopqrstuvwxyz'')"

text \<open>The regular-expression classes \<open>\w\<close>, \<open>\s\<close>, \<open>\d\<close> and \<open>.\<close>, and \<open>toUpperCase\<close>, on code
  units below 256. There \<open>\w\<close> and \<open>\d\<close> are ASCII, the only white space besides the ASCII
  one is the no-break space, and no other unit has an ASCII letter as its upper case, so
  that the comparisons the program makes with its upper-case keywords are decided by the
  ASCII letters.\<close>

definition isWordChar :: "char \<Rightarrow> bool" where
  "isWordChar c = (isLowerChar c \<or> isUpperChar c \<or> isDigit c \<or> c = CHR ''_'')"

definition isSpaceChar :: "char \<Rightarrow> bool" where
  "isSpaceChar c =
     (c \<in> set [CHR '' '', CHR 0x09, CHR 0x0A, CHR 0x0B, CHR 0x0C, CHR 0x0D, CHR 0xA0])"

definition isDotChar :: "char \<Rightarrow> bool" where
  "isDotChar c = (c \<noteq> CHR 0x0A \<and> c \<noteq> CHR 0x0D)"

definition toUpperChar :: "char \<Rightarrow> char" where
  "toUpperChar c =
     (case map_of (zip ''abcdefghijklmnopqrstuvwxyz'' ''ABCDEFGHIJKLMNOPQRSTUVWXYZ'') c of
        Some u \<Rightarrow> u
      | None \<Rightarrow> c)"

definition toUpperCase :: "string \<Rightarrow> string" where
  "toUpperCase s = map toUpperChar s"

definition digitVal :: "char \<Rightarrow> nat" where
  "digitVal c = of_char c - 48"

text \<open>Comparison of two strings by code units, as \<open><\<close> does on two strings:
  a proper prefix is smaller.\<close>

fun strLess :: "string \<Rightarrow> string \<Rightarrow> bool" where
  "strLess [] [] = False"
| "strLess [] (y # ys) = True"
| "strLess (x # xs) [] = False"
| "strLess (x # xs) (y # ys) =
     (if (of_char x :: nat) < of_char y then True
      else if (of_char y :: nat) < of_char x then False
      else strLess xs ys)"

subsection \<open>Numbers\<close>

text \<open>Rounding to the nearest double. \<open>bitLength n\<close> is the number of binary digits of
  \<open>n\<close>; for \<open>r > 0\<close>, \<open>floorLog2 r\<close> is the exponent \<open>e\<close> with \<open>2^e \<le> r < 2^(e+1)\<close>. A double
  with exponent \<open>e\<close> is a multiple of \<open>2^(e - 52)\<close>, the exponent being at least \<open>-1022\<close>
  (below are the subnormal numbers); a result of \<open>2^1024\<close> or more, that is, of
  exponent 1024 or more, is an infinity.\<close>

function bitLength :: "int \<Rightarrow> nat" where
  "bitLength n = (if n \<le> 0 then 0 else Suc (bitLength (n div 2)))"
  by pat_completeness auto
termination
  by (relation "measure nat") auto

declare bitLength.simps [simp del]

definition pow2 :: "int \<Rightarrow> rat" where
  "pow2 e = (if 0 \<le> e then 2 ^ nat e else 1 / 2 ^ nat (- e))"

definition floorLog2 :: "rat \<Rightarrow> int" where
  "floorLog2 r =
     (let p = fst (quotient_of r);
          q = snd (quotient_of r);
          e = int (bitLength p) - int (bitLength q)
      in if pow2 e \<le> r then e else e - 1)"

definition roundHalfEven :: "rat \<Rightarrow> int" where
  "roundHalfEven x =
     (let f = \<lfloor>x\<rfloor>;
          d = x - of_int f
      in if d < 1 / 2 then f
         else if 1 / 2 < d then f + 1
         else if even f then f else f + 1)"

definition roundDouble :: "rat \<Rightarrow> jsnum" where
  "roundDouble r =
     (if r = 0 then Fin 0
      else
        (let a = \<bar>r\<bar>;
             e = max (floorLog2 a) (- 1022);
             quantum = pow2 (e - 52);
             v = of_int (roundHalfEven (a / quantum)) * quantum
         in if 1024 \<le> floorLog2 v then (if r < 0 then NegInf else PosInf)
            else Fin (if r < 0 then - v else v)))"

text \<open>\<open>a < b\<close>, \<open>a <= b\<close> and \<open>a + b\<close> and \<open>a / b\<close> on numbers. Every comparison
  with \<open>NaN\<close> is false.\<close>

fun numLess :: "jsnum \<Rightarrow> jsnum \<Rightarrow> bool" where
  "numLess NaN y = False"
| "numLess x NaN = False"
| "numLess (Fin a) (Fin b) = (a < b)"
| "numLess (Fin a) PosInf = True"
| "numLess (Fin a) NegInf = False"
| "numLess PosInf y = False"
| "numLess NegInf NegInf = False"
| "numLess NegInf y = True"

definition numLessEq :: "jsnum \<Rightarrow> jsnum \<Rightarrow> bool" where
  "numLessEq x y = (x \<noteq> NaN \<and> y \<noteq> NaN \<and> (x = y \<or> numLess x y))"

fun numAdd :: "jsnum \<Rightarrow> jsnum \<Rightarrow> jsnum" where
  "numAdd NaN y = NaN"
| "numAdd x NaN = NaN"
| "numAdd (Fin a) (Fin b) = roundDouble (a + b)"
| "numAdd (Fin a) y = y"
| "numAdd PosInf NegInf = NaN"
| "numAdd NegInf PosInf = NaN"
| "numAdd x y = x"

fun numDiv :: "jsnum \<Rightarrow> jsnum \<Rightarrow> jsnum" where
  "numDiv NaN y = NaN"
| "numDiv x NaN = NaN"
| "numDiv (Fin a) (Fin b) =
     (if b \<noteq> 0 then roundDouble (a / b)
      else if a = 0 then NaN else if 0 < a then PosInf else NegInf)"
| "numDiv (Fin a) y = Fin 0"
| "numDiv PosInf (Fin b) = (if 0 \<le> b then PosInf else NegInf)"
| "numDiv NegInf (Fin b) = (if 0 \<le> b then NegInf else PosInf)"
| "numDiv x y = NaN"

subsection \<open>String to number: \<open>Number(s)\<close> and \<open>parseFloat(s)\<close>\<close>

definition digitsVal :: "string \<Rightarrow> int" where
  "digitsVal ds = foldl (\<lambda>a c. 10 * a + int (digitVal c)) 0 ds"

definition scale10 :: "rat \<Rightarrow> int \<Rightarrow> rat" where
  "scale10 m e = (if 0 \<le> e then m * 10 ^ nat e else m / 10 ^ nat (- e))"

text \<open>The exponent part \<open>e[+-]?digits\<close> at the head of a string, if there is one.\<close>

definition exponentPart :: "string \<Rightarrow> (int \<times> string) option" where
  "exponentPart s =
     (case s of
        [] \<Rightarrow> None
      | c # r \<Rightarrow>
          if c = CHR ''e'' \<or> c = CHR ''E'' then
            (let neg = (r \<noteq> [] \<and> hd r = CHR ''-'');
                 r1 = (if r \<noteq> [] \<and> (hd r = CHR ''-'' \<or> hd r = CHR ''+'') then tl r else r);
                 ds = takeWhile isDigit r1
             in if ds = [] then None
                else Some ((if neg then - digitsVal ds else digitsVal ds),
                           dropWhile isDigit r1))
          else None)"

text \<open>The longest prefix that is an unsigned decimal literal
  (\<open>digits\<close>, \<open>digits.digits\<close>, \<open>.digits\<close>, each with an optional exponent), with its exact
  value and the rest of the string.\<close>

definition decimalPrefix :: "string \<Rightarrow> (rat \<times> string) option" where
  "decimalPrefix s =
     (let ip = takeWhile isDigit s;
          r1 = dropWhile isDigit s;
          hasDot = (r1 \<noteq> [] \<and> hd r1 = CHR ''.'');
          fp = (if hasDot then takeWhile isDigit (tl r1) else []);
          r2 = (if hasDot then dropWhile isDigit (tl r1) else r1)
      in if ip = [] \<and> fp = [] then None
         else
           (let m = of_int (digitsVal ip) + of_int (digitsVal fp) / 10 ^ length fp
            in case exponentPart r2 of
                 None \<Rightarrow> Some (m, r2)
               | Some (e, r3) \<Rightarrow> Some (scale10 m e, r3)))"

definition trimStart :: "string \<Rightarrow> string" where
  "trimStart s = dropWhile isSpaceChar s"

definition trim :: "string \<Rightarrow> string" where
  "trim s = rev (dropWhile isSpaceChar (rev (dropWhile isSpaceChar s)))"

definition startsWith :: "string \<Rightarrow> string \<Rightarrow> bool" where
  "startsWith s p = (take (length p) s = p)"

text \<open>A signed literal: \<open>[+-]?(Infinity | decimal)\<close>, as a prefix.\<close>

definition signedPrefix :: "string \<Rightarrow> (jsnum \<times> string) option" where
  "signedPrefix s =
     (let neg = (s \<noteq> [] \<and> hd s = CHR ''-'');
          r = (if s \<noteq> [] \<and> (hd s = CHR ''-'' \<or> hd s = CHR ''+'') then tl s else s)
      in if startsWith r ''Infinity''
         then Some ((if neg then NegInf else PosInf), drop 8 r)
         else (case decimalPrefix r of
                 None \<Rightarrow> None
               | Some (m, r') \<Rightarrow> Some (roundDouble (if neg then - m else m), r')))"

definition parseFloat :: "string \<Rightarrow> jsnum" where
  "parseFloat s = (case signedPrefix (trimStart s) of None \<Rightarrow> NaN | Some (n, r) \<Rightarrow> n)"

text \<open>Digits in a radix, for the \<open>0x\<close>, \<open>0o\<close> and \<open>0b\<close> literals \<open>Number(s)\<close> accepts.\<close>

definition radixDigit :: "nat \<Rightarrow> char \<Rightarrow> nat option" where
  "radixDigit b c =
     (case map_of (zip ''0123456789abcdefABCDEF''
                       [0, 1, 2, 3, 4, 5, 6, 7, 8, 9, 10, 11, 12, 13, 14, 15, 10, 11, 12, 13, 14, 15]) c of
        None \<Rightarrow> None
      | Some d \<Rightarrow> if d < b then Some d else None)"

definition radixVal :: "nat \<Rightarrow> string \<Rightarrow> jsnum" where
  "radixVal b ds =
     (if ds \<noteq> [] \<and> list_all (\<lambda>c. radixDigit b c \<noteq> None) ds
      then roundDouble
             (of_int (foldl (\<lambda>a c. int b * a + int (the (radixDigit b c))) 0 ds))
      else NaN)"

definition stringToNumber :: "string \<Rightarrow> jsnum" where
  "stringToNumber s =
     (let t = trim s
      in if t = [] then Fin 0
         else if startsWith t ''0x'' \<or> startsWith t ''0X'' then radixVal 16 (drop 2 t)
         else if startsWith t ''0o'' \<or> startsWith t ''0O'' then radixVal 8 (drop 2 t)
         else if startsWith t ''0b'' \<or> startsWith t ''0B'' then radixVal 2 (drop 2 t)
         else (case signedPrefix t of
                 Some (n, []) \<Rightarrow> n
               | _ \<Rightarrow> NaN))"

fun toNumber :: "jsval \<Rightarrow> jsnum" where
  "toNumber JNull = Fin 0"
| "toNumber JUndef = NaN"
| "toNumber (JBool b) = Fin (if b then 1 else 0)"
| "toNumber (JNum n) = n"
| "toNumber (JStr s) = stringToNumber s"
| "toNumber (JObject i s) = stringToNumber s"

definition isNaN :: "jsval \<Rightarrow> bool" where
  "isNaN v = (toNumber v = NaN)"

subsection \<open>Operators on values\<close>

text \<open>An operand that is an object is first converted to a primitive value, its
  string.\<close>

fun toPrimitive :: "jsval \<Rightarrow> jsval" where
  "toPrimitive (JObject i s) = JStr s"
| "toPrimitive v = v"

text \<open>\<open>a === b\<close>, \<open>a < b\<close>, \<open>a <= b\<close>; \<open>a > b\<close> is \<open>b < a\<close> and \<open>a >= b\<close> is
  \<open>b <= a\<close>. Two strings compare by code units; any other pair of primitive values
  compares as numbers.\<close>

definition strictEq :: "jsval \<Rightarrow> jsval \<Rightarrow> bool" where
  "strictEq a b = (a = b \<and> a \<noteq> JNum NaN)"

fun primLess :: "jsval \<Rightarrow> jsval \<Rightarrow> bool" where
  "primLess (JStr s) (JStr t) = strLess s t"
| "primLess a b = numLess (toNumber a) (toNumber b)"

fun primLessEq :: "jsval \<Rightarrow> jsval \<Rightarrow> bool" where
  "primLessEq (JStr s) (JStr t) = (\<not> strLess t s)"
| "primLessEq a b = numLessEq (toNumber a) (toNumber b)"

definition jsLess :: "jsval \<Rightarrow> jsval \<Rightarrow> bool" where
  "jsLess a b = primLess (toPrimitive a) (toPrimitive b)"

definition jsLessEq :: "jsval \<Rightarrow> jsval \<Rightarrow> bool" where
  "jsLessEq a b = primLessEq (toPrimitive a) (toPrimitive b)"

text \<open>\<open>a + b\<close>: concatenation when an operand is a string, numeric addition
  otherwise. The decimal rendering of a number (\<open>Number::toString\<close>) is a parameter
  \<open>numToStr\<close> of the model, so that nothing proved depends on it.\<close>

fun toStringWith :: "(jsnum \<Rightarrow> string) \<Rightarrow> jsval \<Rightarrow> string" where
  "toStringWith numToStr JNull = ''null''"
| "toStringWith numToStr JUndef = ''undefined''"
| "toStringWith numToStr (JBool b) = (if b then ''true'' else ''false'')"
| "toStringWith numToStr (JNum n) = numToStr n"
| "toStringWith numToStr (JStr s) = s"
| "toStringWith numToStr (JObject i s) = s"

definition isStr :: "jsval \<Rightarrow> bool" where
  "isStr v = (case v of JStr s \<Rightarrow> True | _ \<Rightarrow> False)"

definition jsAdd :: "(jsnum \<Rightarrow> string) \<Rightarrow> jsval \<Rightarrow> jsval \<Rightarrow> jsval" where
  "jsAdd numToStr a b =
     (let pa = toPrimitive a; pb = toPrimitive b
      in if isStr pa \<or> isStr pb
         then JStr (toStringWith numToStr pa @ toStringWith numToStr pb)
         else JNum (numAdd (toNumber pa) (toNumber pb)))"

text \<open>\<open>Math.min(...vs)\<close> and \<open>Math.max(...vs)\<close>: every argument is converted to a
  number; \<open>NaN\<close> if any is \<open>NaN\<close>; \<open>Infinity\<close> and \<open>-Infinity\<close> on no arguments.\<close>

definition mathMin :: "jsval list \<Rightarrow> jsnum" where
  "mathMin vs =
     (let ns = map toNumber vs
      in if NaN \<in> set ns then NaN
         else foldl (\<lambda>a n. if numLess n a then n else a) PosInf ns)"

definition mathMax :: "jsval list \<Rightarrow> jsnum" where
  "mathMax vs =
     (let ns = map toNumber vs
      in if NaN \<in> set ns then NaN
         else foldl (\<lambda>a n. if numLess a n then n else a) NegInf ns)"

section \<open>The column store (\<open>ColumnStore\<close>)\<close>

text \<open>Record fields keep the source's names; a suffix separates the fields that several
  objects share (\<open>name\<close>, \<open>column\<close>, \<open>data\<close>, \<open>metadata\<close>) or that are keywords here.
  A schema entry \<open>{name, type}\<close> is a pair. Timestamps (\<open>new Date()\<close>) are a clock value
  handed to the operation; elapsed times (\<open>performance.now()\<close>) are not modelled.\<close>

record ColumnStats =
  min_s :: jsval
  max_s :: jsval
  distinctCount :: nat
  nullCount :: nat

record Column =
  name :: string
  type_c :: string
  data :: "jsval list"
  nullBitmap :: "nat list"
  compression :: string
  dictionary :: "(jsval \<times> nat) list option"
  stats :: ColumnStats

record Metadata =
  created :: nat
  lastModified :: nat
  compressionRatio :: jsnum
  totalSize :: nat

record Table =
  name_t :: string
  schema :: "(string \<times> string) list"
  columns :: "(string \<times> Column) list"
  rowCount :: nat
  metadata :: Metadata

record ColumnStore =
  tables :: "(string \<times> Table) list"

definition selectCompression :: "string \<Rightarrow> string" where
  "selectCompression ty =
     (if ty = ''string'' then ''dictionary''
      else if ty = ''integer'' then ''rle''
      else if ty = ''float'' then ''delta''
      else if ty = ''boolean'' then ''bitmap''
      else ''none'')"

definition newColumn :: "string \<Rightarrow> string \<Rightarrow> Column" where
  "newColumn nm ty =
     \<lparr> name = nm, type_c = ty, data = [], nullBitmap = [],
       compression = selectCompression ty,
       dictionary = (if ty = ''string'' then Some [] else None),
       stats = \<lparr> min_s = JNull, max_s = JNull, distinctCount = 0, nullCount = 0 \<rparr> \<rparr>"

definition createTable :: "nat \<Rightarrow> string \<Rightarrow> (string \<times> string) list \<Rightarrow> ColumnStore \<Rightarrow> Table \<times> ColumnStore" where
  "createTable now tableName sch store =
     (let table = \<lparr> name_t = tableName, schema = sch,
                     columns = foldl (\<lambda>cs col. mapSet cs (fst col) (newColumn (fst col) (snd col))) [] sch,
                     rowCount = 0,
                     metadata = \<lparr> created = now, lastModified = now,
                                  compressionRatio = Fin 0, totalSize = 0 \<rparr> \<rparr>
      in (table, store\<lparr> tables := mapSet (tables store) tableName table \<rparr>))"

subsection \<open>insert\<close>

definition updateColumnStats :: "Column \<Rightarrow> jsval \<Rightarrow> Column" where
  "updateColumnStats column value =
     (let st = stats column;
          st1 = (if min_s st = JNull \<or> jsLess value (min_s st) then st\<lparr> min_s := value \<rparr> else st);
          st2 = (if max_s st1 = JNull \<or> jsLess (max_s st1) value then st1\<lparr> max_s := value \<rparr> else st1)
      in column\<lparr> stats := st2 \<rparr>)"

text \<open>The body of the inner loop of \<open>insert\<close>, for one schema entry of type \<open>ty\<close>, its
  column and the row's value for it.\<close>

definition insertValue :: "string \<Rightarrow> Column \<Rightarrow> jsval \<Rightarrow> Column" where
  "insertValue ty column value =
     (if value = JNull \<or> value = JUndef then
        column\<lparr> nullBitmap := nullBitmap column @ [1],
                data := data column @ [JNull],
                stats := (stats column)\<lparr> nullCount := nullCount (stats column) + 1 \<rparr> \<rparr>
      else
        (let column1 = column\<lparr> nullBitmap := nullBitmap column @ [0] \<rparr>;
             column2 =
               (case dictionary column1 of
                  Some dict \<Rightarrow>
                    if ty = ''string'' then
                      (let dict' = (if mapHas dict value then dict
                                    else mapSet dict value (length dict))
                       in column1\<lparr> dictionary := Some dict',
                                   data := data column1 @
                                     [case map_of dict' value of
                                        Some code \<Rightarrow> JNum (Fin (of_nat code))
                                      | None \<Rightarrow> JUndef] \<rparr>)
                    else column1\<lparr> data := data column1 @ [value] \<rparr>
                | None \<Rightarrow> column1\<lparr> data := data column1 @ [value] \<rparr>)
         in updateColumnStats column2 value))"

text \<open>\<open>table.schema.forEach\<close> for one row, and \<open>rows.forEach\<close>. The table is mutated in
  place, so when a column named by the schema is missing (a \<open>TypeError\<close>) the changes
  made so far stay.\<close>

fun insertFields :: "obj \<Rightarrow> (string \<times> string) list \<Rightarrow> Table \<Rightarrow> error option \<times> Table" where
  "insertFields row [] table = (None, table)"
| "insertFields row (col # cols) table =
     (case map_of (columns table) (fst col) of
        None \<Rightarrow> (Some TypeError, table)
      | Some column \<Rightarrow>
          insertFields row cols
            (table\<lparr> columns := mapSet (columns table) (fst col)
                                  (insertValue (snd col) column (getProp row (fst col))) \<rparr>))"

fun insertRows :: "obj list \<Rightarrow> Table \<Rightarrow> error option \<times> Table" where
  "insertRows [] table = (None, table)"
| "insertRows (row # rows) table =
     (case insertFields row (schema table) table of
        (Some e, table') \<Rightarrow> (Some e, table')
      | (None, table') \<Rightarrow> insertRows rows (table'\<lparr> rowCount := rowCount table' + 1 \<rparr>))"

text \<open>\<open>calculateCompression\<close>: the size estimate. The source keeps the ratio as the
  string \<open>(uncompressedSize / compressedSize).toFixed(2)\<close>; the model keeps the exact
  quotient of the two sizes that this string renders with two decimals.\<close>

definition exactQuotient :: "nat \<Rightarrow> nat \<Rightarrow> jsnum" where
  "exactQuotient a b =
     (if b \<noteq> 0 then Fin (of_nat a / of_nat b) else if a = 0 then NaN else PosInf)"

definition columnCompressedSize :: "Column \<Rightarrow> nat" where
  "columnCompressedSize column =
     (case dictionary column of
        Some dict \<Rightarrow> length dict * 20 + length (data column) * 2
      | None \<Rightarrow> length (data column) * 4)
     + (length (nullBitmap column) + 7) div 8"

definition calculateCompression :: "Table \<Rightarrow> jsnum \<times> Table" where
  "calculateCompression table =
     (let uncompressedSize = sum_list (map (\<lambda>c. length (data (snd c)) * 8) (columns table));
          compressedSize = sum_list (map (\<lambda>c. columnCompressedSize (snd c)) (columns table));
          ratio = exactQuotient uncompressedSize compressedSize
      in (ratio, table\<lparr> metadata := (metadata table)\<lparr> compressionRatio := ratio,
                                                        totalSize := compressedSize \<rparr> \<rparr>))"

record InsertResult =
  rowsInserted :: nat
  compressionRatio_i :: jsnum

definition tableNotFound :: "string \<Rightarrow> error" where
  "tableNotFound tableName = Error (''Table '' @ tableName @ '' not found'')"

definition insert_cs :: "nat \<Rightarrow> string \<Rightarrow> obj list \<Rightarrow> ColumnStore \<Rightarrow> (error + InsertResult) \<times> ColumnStore" where
  "insert_cs now tableName rows store =
     (case map_of (tables store) tableName of
        None \<Rightarrow> (Inl (tableNotFound tableName), store)
      | Some table \<Rightarrow>
          (case insertRows rows table of
             (Some e, table') \<Rightarrow>
               (Inl e, store\<lparr> tables := mapSet (tables store) tableName table' \<rparr>)
           | (None, table') \<Rightarrow>
               (let table1 = table'\<lparr> metadata := (metadata table')\<lparr> lastModified := now \<rparr> \<rparr>;
                    (ratio, table2) = calculateCompression table1
                in (Inr \<lparr> rowsInserted = length rows, compressionRatio_i = ratio \<rparr>,
                    store\<lparr> tables := mapSet (tables store) tableName table2 \<rparr>))))"

subsection \<open>scan\<close>

record Predicate =
  column_p :: string
  operator_p :: string
  value_p :: jsval

text \<open>The reverse lookup \<open>for (let [k, v] of column.dictionary) if (v === value) ...\<close>:
  the first key whose code is the stored value; the value itself when there is none.\<close>

fun reverseLookup :: "(jsval \<times> nat) list \<Rightarrow> jsval \<Rightarrow> jsval" where
  "reverseLookup [] value = value"
| "reverseLookup ((k, v) # dict) value =
     (if strictEq (JNum (Fin (of_nat v))) value then k else reverseLookup dict value)"

definition decodeValue :: "Column \<Rightarrow> jsval \<Rightarrow> jsval" where
  "decodeValue column value =
     (case dictionary column of
        Some dict \<Rightarrow> if value \<noteq> JNull then reverseLookup dict value else value
      | None \<Rightarrow> value)"

text \<open>\<open>column.nullBitmap[i]\<close> as a condition: set when the entry exists and is not 0.\<close>

definition nullAt :: "Column \<Rightarrow> nat \<Rightarrow> bool" where
  "nullAt column i = (i < length (nullBitmap column) \<and> nullBitmap column ! i \<noteq> 0)"

definition applyOperator :: "string \<Rightarrow> jsval \<Rightarrow> jsval \<Rightarrow> bool" where
  "applyOperator op colValue value =
     (if op = ''='' then strictEq colValue value
      else if op = ''>'' then jsLess value colValue
      else if op = ''<'' then jsLess colValue value
      else if op = ''>='' then jsLessEq value colValue
      else if op = ''<='' then jsLessEq colValue value
      else if op = ''!='' then \<not> strictEq colValue value
      else True)"

text \<open>One iteration of the loop of \<open>applyPredicate\<close>: the new \<open>matchBitmap[i]\<close>.\<close>

definition predicateAt :: "Column \<Rightarrow> Predicate \<Rightarrow> nat \<Rightarrow> bool" where
  "predicateAt column predicate i =
     (let colValue = decodeValue column (arrayGet (data column) i)
      in if nullAt column i then False
         else applyOperator (operator_p predicate) colValue (value_p predicate))"

text \<open>Assignment \<open>matchBitmap[i] = b\<close>; an array grows when written past its end, and the
  holes read as false.\<close>

definition arraySet :: "bool list \<Rightarrow> nat \<Rightarrow> bool \<Rightarrow> bool list" where
  "arraySet xs i b =
     (if i < length xs then xs[i := b] else xs @ replicate (i - length xs) False @ [b])"

text \<open>\<open>applyPredicate\<close> updates the bitmap it is given and returns nothing; the model
  returns the updated bitmap. The column is looked up once; reading \<open>column.data\<close> of a
  missing column is a \<open>TypeError\<close>, raised in the first iteration if there is one.\<close>

definition applyPredicate :: "Table \<Rightarrow> Predicate \<Rightarrow> bool list \<Rightarrow> error + bool list" where
  "applyPredicate table predicate matchBitmap =
     (if rowCount table = 0 then Inr matchBitmap
      else case map_of (columns table) (column_p predicate) of
             None \<Rightarrow> Inl TypeError
           | Some column \<Rightarrow>
               Inr (foldl (\<lambda>bm i. arraySet bm i (predicateAt column predicate i))
                          matchBitmap [0..<rowCount table]))"

text \<open>The materialisation of row \<open>i\<close>: \<open>selectedColumns.forEach\<close>.\<close>

fun materialize :: "Table \<Rightarrow> nat \<Rightarrow> string list \<Rightarrow> obj \<Rightarrow> error + obj" where
  "materialize table i [] row = Inr row"
| "materialize table i (colName # colNames) row =
     (case map_of (columns table) colName of
        None \<Rightarrow> Inl TypeError
      | Some column \<Rightarrow>
          (let value = decodeValue column (arrayGet (data column) i)
           in materialize table i colNames
                (setProp row colName (if nullAt column i then JNull else value))))"

text \<open>The loop \<open>for (let i = 0; i < table.rowCount; i++) if (matchBitmap[i]) ...\<close>.\<close>

fun materializeRows :: "Table \<Rightarrow> string list \<Rightarrow> bool list \<Rightarrow> nat list \<Rightarrow> obj list \<Rightarrow> error + obj list" where
  "materializeRows table selectedColumns matchBitmap [] results = Inr results"
| "materializeRows table selectedColumns matchBitmap (i # is) results =
     (if i < length matchBitmap \<and> matchBitmap ! i then
        (case materialize table i selectedColumns (plainObject []) of
           Inl e \<Rightarrow> Inl e
         | Inr row \<Rightarrow> materializeRows table selectedColumns matchBitmap is (results @ [row]))
      else materializeRows table selectedColumns matchBitmap is results)"

text \<open>The result \<open>{data, metadata}\<close> of \<open>scan\<close> and of \<open>aggregate\<close>. The metadata of a
  scan is \<open>{rowsScanned, rowsReturned, columnsScanned}\<close>, that of an aggregation is
  \<open>{groupCount}\<close>.\<close>

datatype ResultMetadata =
    ScanMetadata (rowsScanned: nat) (rowsReturned: nat) (columnsScanned: nat)
  | AggregateMetadata (groupCount: nat)

record QueryResult =
  data_r :: "obj list"
  metadata_r :: ResultMetadata

definition scanTable :: "Table \<Rightarrow> string list option \<Rightarrow> Predicate option \<Rightarrow> error + QueryResult" where
  "scanTable table cols predicate =
     (let selectedColumns = (case cols of Some cs \<Rightarrow> cs | None \<Rightarrow> map fst (columns table));
          matchBitmap0 = replicate (rowCount table) True
      in case (case predicate of
                 Some p \<Rightarrow> applyPredicate table p matchBitmap0
               | None \<Rightarrow> Inr matchBitmap0) of
           Inl e \<Rightarrow> Inl e
         | Inr matchBitmap \<Rightarrow>
             (case materializeRows table selectedColumns matchBitmap [0..<rowCount table] [] of
                Inl e \<Rightarrow> Inl e
              | Inr results \<Rightarrow>
                  Inr \<lparr> data_r = results,
                        metadata_r = ScanMetadata (rowCount table) (length results)
                                                  (length selectedColumns) \<rparr>))"

text \<open>\<open>scan\<close> is a method of the store: it takes the store and returns it with the
  result. Nothing in its body assigns to the store or to a table.\<close>

definition scan :: "string \<Rightarrow> string list option \<Rightarrow> Predicate option \<Rightarrow> ColumnStore \<Rightarrow> (error + QueryResult) \<times> ColumnStore" where
  "scan tableName cols predicate store =
     (case map_of (tables store) tableName of
        None \<Rightarrow> (Inl (tableNotFound tableName), store)
      | Some table \<Rightarrow> (scanTable table cols predicate, store))"

subsection \<open>aggregate\<close>

record Aggregate =
  function_a :: string
  column_a :: string
  alias_a :: "string option"

definition computeAggregate :: "(jsnum \<Rightarrow> string) \<Rightarrow> obj list \<Rightarrow> string \<Rightarrow> string \<Rightarrow> error + jsval" where
  "computeAggregate numToStr rows col func =
     (let values = filter (\<lambda>v. v \<noteq> JNull) (map (\<lambda>r. getProp r col) rows);
          f = toUpperCase func
      in if f = ''COUNT'' then
           Inr (JNum (Fin (of_nat (if col = ''*'' then length rows else length values))))
         else if f = ''SUM'' then
           Inr (foldl (jsAdd numToStr) (JNum (Fin 0)) values)
         else if f = ''AVG'' then
           Inr (JNum (numDiv (toNumber (foldl (jsAdd numToStr) (JNum (Fin 0)) values))
                             (Fin (of_nat (length values)))))
         else if f = ''MIN'' then Inr (JNum (mathMin values))
         else if f = ''MAX'' then Inr (JNum (mathMax values))
         else Inl (Error (''Unknown aggregate function: '' @ func)))"

text \<open>\<open>data.forEach\<close> filling the \<open>Map\<close> of groups: a new key is appended, a row is
  pushed to the array of its key.\<close>

fun groupRows :: "string \<Rightarrow> obj list \<Rightarrow> (jsval \<times> obj list) list \<Rightarrow> (jsval \<times> obj list) list" where
  "groupRows groupBy [] groups = groups"
| "groupRows groupBy (row # rows) groups =
     (let key = getProp row groupBy;
          groups1 = (if \<not> mapHas groups key then mapSet groups key [] else groups)
      in groupRows groupBy rows
           (case map_of groups1 key of
              Some rs \<Rightarrow> mapSet groups1 key (rs @ [row])
            | None \<Rightarrow> groups1))"

text \<open>The key \<open>agg.alias || agg.function\<close> of an aggregate in a result row.\<close>

definition aggregateKey :: "Aggregate \<Rightarrow> string" where
  "aggregateKey agg =
     (case alias_a agg of
        Some a \<Rightarrow> if a \<noteq> [] then a else function_a agg
      | None \<Rightarrow> function_a agg)"

text \<open>\<open>aggregates.forEach\<close> on the rows of one group, and \<open>groups.forEach\<close>.\<close>

fun aggregateRow :: "(jsnum \<Rightarrow> string) \<Rightarrow> obj list \<Rightarrow> Aggregate list \<Rightarrow> obj \<Rightarrow> error + obj" where
  "aggregateRow numToStr rows [] result = Inr result"
| "aggregateRow numToStr rows (agg # aggs) result =
     (case computeAggregate numToStr rows (column_a agg) (function_a agg) of
        Inl e \<Rightarrow> Inl e
      | Inr v \<Rightarrow> aggregateRow numToStr rows aggs (setProp result (aggregateKey agg) v))"

fun aggregateGroups :: "(jsnum \<Rightarrow> string) \<Rightarrow> string \<Rightarrow> Aggregate list \<Rightarrow> (jsval \<times> obj list) list \<Rightarrow> obj list \<Rightarrow> error + obj list" where
  "aggregateGroups numToStr groupBy aggregates [] results = Inr results"
| "aggregateGroups numToStr groupBy aggregates ((key, rows) # groups) results =
     (case aggregateRow numToStr rows aggregates (plainObject [(groupBy, key)]) of
        Inl e \<Rightarrow> Inl e
      | Inr result \<Rightarrow> aggregateGroups numToStr groupBy aggregates groups (results @ [result]))"

text \<open>\<open>if (groupBy)\<close>: a group-by column is a string that is neither \<open>null\<close> nor empty.\<close>

definition aggregateRows :: "(jsnum \<Rightarrow> string) \<Rightarrow> Aggregate list \<Rightarrow> string option \<Rightarrow> obj list \<Rightarrow> error + QueryResult" where
  "aggregateRows numToStr aggregates groupBy rows =
     (case (case groupBy of
              Some g \<Rightarrow>
                if g \<noteq> [] then aggregateGroups numToStr g aggregates (groupRows g rows []) []
                else map_sum id (\<lambda>r. [r]) (aggregateRow numToStr rows aggregates (plainObject []))
            | None \<Rightarrow> map_sum id (\<lambda>r. [r]) (aggregateRow numToStr rows aggregates (plainObject []))) of
        Inl e \<Rightarrow> Inl e
      | Inr results \<Rightarrow>
          Inr \<lparr> data_r = results,
                metadata_r = AggregateMetadata
                  (case groupBy of
                     Some g \<Rightarrow> if g \<noteq> [] then length results else 1
                   | None \<Rightarrow> 1) \<rparr>)"

text \<open>\<open>aggregate\<close>, a method of the store like \<open>scan\<close>; it scans all columns with the
  predicate first.\<close>

definition aggregate :: "(jsnum \<Rightarrow> string) \<Rightarrow> string \<Rightarrow> Aggregate list \<Rightarrow> string option \<Rightarrow> Predicate option \<Rightarrow> ColumnStore \<Rightarrow> (error + QueryResult) \<times> ColumnStore" where
  "aggregate numToStr tableName aggregates groupBy predicate store =
     (case map_of (tables store) tableName of
        None \<Rightarrow> (Inl (tableNotFound tableName), store)
      | Some table \<Rightarrow>
          (case scan tableName None predicate store of
             (Inl e, store') \<Rightarrow> (Inl e, store')
           | (Inr scanResult, store') \<Rightarrow>
               (aggregateRows numToStr aggregates groupBy (data_r scanResult), store')))"

section \<open>The query engine (\<open>QueryEngine\<close>)\<close>

subsection \<open>Regular expressions\<close>

text \<open>
  The parser is a series of \<open>String.prototype.match\<close> calls. The patterns it uses are
  built from literals, the classes \<open>\w\<close>, \<open>\s\<close>, \<open>\d\<close> and \<open>.\<close> under \<open>+\<close>, \<open>*\<close> and \<open>*?\<close>,
  alternation, \<open>?\<close>, capture groups, one back-reference and \<open>$\<close>. \<open>rmatch\<close> is the
  backtracking matcher of the language on this fragment: from a state (the rest of the
  input and the captures so far) it returns all the states a pattern can end in, in the
  order in which backtracking tries them, so that the first one is the match found.
  The flag is \<open>i\<close> (ignore case).
\<close>

datatype regex =
    Eps
  | Lit string
  | One "char \<Rightarrow> bool"
  | Plus "char \<Rightarrow> bool"
  | Star "char \<Rightarrow> bool"
  | LazyStar "char \<Rightarrow> bool"
  | Seq regex regex
  | Alt regex regex
  | Opt regex
  | Group nat regex
  | Backref nat
  | EndOfInput

type_synonym rstate = "string \<times> (nat \<rightharpoonup> string)"

definition litMatches :: "bool \<Rightarrow> string \<Rightarrow> string \<Rightarrow> bool" where
  "litMatches icase l s =
     (if icase then toUpperCase (take (length l) s) = toUpperCase l
      else take (length l) s = l)"

fun rmatch :: "bool \<Rightarrow> regex \<Rightarrow> rstate \<Rightarrow> rstate list" where
  "rmatch icase Eps (s, c) = [(s, c)]"
| "rmatch icase (Lit l) (s, c) =
     (if litMatches icase l s then [(drop (length l) s, c)] else [])"
| "rmatch icase (One p) (s, c) =
     (case s of [] \<Rightarrow> [] | x # xs \<Rightarrow> if p x then [(xs, c)] else [])"
| "rmatch icase (Plus p) (s, c) =
     map (\<lambda>k. (drop k s, c)) (rev [1..<Suc (length (takeWhile p s))])"
| "rmatch icase (Star p) (s, c) =
     map (\<lambda>k. (drop k s, c)) (rev [0..<Suc (length (takeWhile p s))])"
| "rmatch icase (LazyStar p) (s, c) =
     map (\<lambda>k. (drop k s, c)) [0..<Suc (length (takeWhile p s))]"
| "rmatch icase (Seq a b) st = concat (map (rmatch icase b) (rmatch icase a st))"
| "rmatch icase (Alt a b) st = rmatch icase a st @ rmatch icase b st"
| "rmatch icase (Opt a) st = rmatch icase a st @ [st]"
| "rmatch icase (Group n a) (s, c) =
     map (\<lambda>(s', c'). (s', c'(n \<mapsto> take (length s - length s') s))) (rmatch icase a (s, c))"
| "rmatch icase (Backref n) (s, c) =
     (case c n of
        None \<Rightarrow> [(s, c)]
      | Some t \<Rightarrow> if litMatches icase t s then [(drop (length t) s, c)] else [])"
| "rmatch icase EndOfInput (s, c) = (if s = [] then [(s, c)] else [])"

text \<open>\<open>s.match(re)\<close> without the \<open>g\<close> flag: the match at the leftmost position that has
  one; group 0 is the matched text. \<open>None\<close> is \<open>null\<close>.\<close>

fun matchRegex :: "bool \<Rightarrow> regex \<Rightarrow> string \<Rightarrow> (nat \<rightharpoonup> string) option" where
  "matchRegex icase re [] =
     (case rmatch icase re ([], Map.empty) of
        [] \<Rightarrow> None
      | (s', c) # _ \<Rightarrow> Some (c(0 \<mapsto> [])))"
| "matchRegex icase re (x # xs) =
     (case rmatch icase re (x # xs, Map.empty) of
        [] \<Rightarrow> matchRegex icase re xs
      | (s', c) # _ \<Rightarrow> Some (c(0 \<mapsto> take (length (x # xs) - length s') (x # xs))))"

definition seqs :: "regex list \<Rightarrow> regex" where
  "seqs rs = foldr Seq rs Eps"

definition alts :: "regex \<Rightarrow> regex list \<Rightarrow> regex" where
  "alts r rs = foldl Alt r rs"

subsection \<open>The patterns of the parser\<close>

text \<open>\<open>/SELECT\s+(.*?)\s+FROM/i\<close>\<close>

definition selectPattern :: regex where
  "selectPattern =
     seqs [Lit ''SELECT'', Plus isSpaceChar, Group 1 (LazyStar isDotChar),
           Plus isSpaceChar, Lit ''FROM'']"

text \<open>\<open>/(COUNT|SUM|AVG|MIN|MAX)\s*\(\s*(\*|[\w]+)\s*\)(?:\s+AS\s+(\w+))?/i\<close>\<close>

definition aggregatePattern :: regex where
  "aggregatePattern =
     seqs [Group 1 (alts (Lit ''COUNT'') [Lit ''SUM'', Lit ''AVG'', Lit ''MIN'', Lit ''MAX'']),
           Star isSpaceChar, Lit ''('', Star isSpaceChar,
           Group 2 (Alt (Lit ''*'') (Plus isWordChar)),
           Star isSpaceChar, Lit '')'',
           Opt (seqs [Plus isSpaceChar, Lit ''AS'', Plus isSpaceChar, Group 3 (Plus isWordChar)])]"

text \<open>\<open>/FROM\s+(\w+)/i\<close>\<close>

definition fromPattern :: regex where
  "fromPattern = seqs [Lit ''FROM'', Plus isSpaceChar, Group 1 (Plus isWordChar)]"

text \<open>\<open>/WHERE\s+(.*?)(?:\s+GROUP BY|\s+ORDER BY|\s+LIMIT|$)/i\<close>\<close>

definition wherePattern :: regex where
  "wherePattern =
     seqs [Lit ''WHERE'', Plus isSpaceChar, Group 1 (LazyStar isDotChar),
           alts (Seq (Plus isSpaceChar) (Lit ''GROUP BY''))
                [Seq (Plus isSpaceChar) (Lit ''ORDER BY''),
                 Seq (Plus isSpaceChar) (Lit ''LIMIT''),
                 EndOfInput]]"

text \<open>\<open>/GROUP BY\s+([\w]+)/i\<close>\<close>

definition groupByPattern :: regex where
  "groupByPattern = seqs [Lit ''GROUP BY'', Plus isSpaceChar, Group 1 (Plus isWordChar)]"

text \<open>\<open>/ORDER BY\s+([\w]+)(?:\s+(ASC|DESC))?/i\<close>\<close>

definition orderByPattern :: regex where
  "orderByPattern =
     seqs [Lit ''ORDER BY'', Plus isSpaceChar, Group 1 (Plus isWordChar),
           Opt (Seq (Plus isSpaceChar) (Group 2 (Alt (Lit ''ASC'') (Lit ''DESC''))))]"

text \<open>\<open>/LIMIT\s+(\d+)/i\<close>\<close>

definition limitPattern :: regex where
  "limitPattern = seqs [Lit ''LIMIT'', Plus isSpaceChar, Group 1 (Plus isDigit)]"

text \<open>\<open>/([\w]+)\s*(=|>|<|>=|<=|!=)\s*(['"]?)(.*?)\3/\<close>, in \<open>parseWhere\<close>\<close>

definition conditionPattern :: regex where
  "conditionPattern =
     seqs [Group 1 (Plus isWordChar), Star isSpaceChar,
           Group 2 (alts (Lit ''='') [Lit ''>'', Lit ''<'', Lit ''>='', Lit ''<='', Lit ''!='']),
           Star isSpaceChar,
           Group 3 (Opt (One (\<lambda>c. c = CHR 0x27 \<or> c = CHR 0x22))),
           Group 4 (LazyStar isDotChar),
           Backref 3]"

text \<open>A capture group of a match; \<open>undefined\<close> groups are \<open>None\<close>.\<close>

definition groupOr :: "(nat \<rightharpoonup> string) \<Rightarrow> nat \<Rightarrow> string" where
  "groupOr m n = (case m n of Some g \<Rightarrow> g | None \<Rightarrow> [])"

subsection \<open>parse\<close>

record OrderBy =
  column_o :: string
  direction_o :: string

text \<open>\<open>parseInt\<close> on a string of decimal digits: the number the digits denote, rounded
  to a double.\<close>

definition parseIntDigits :: "string \<Rightarrow> jsnum" where
  "parseIntDigits ds = roundDouble (of_int (digitsVal ds))"

text \<open>The query object that \<open>parse\<close> returns. When it is returned, \<open>type\<close> is
  \<open>'SELECT'\<close> and \<open>table\<close> is a string; the other optional fields may still be \<open>null\<close>.
  \<open>limit\<close> is the value of \<open>parseInt\<close> on a string of digits.\<close>

record Query =
  type_q :: string
  table_q :: string
  columns_q :: "string list"
  where_q :: "Predicate option"
  groupBy_q :: "string option"
  orderBy_q :: "OrderBy option"
  limit_q :: "jsnum option"
  aggregates_q :: "Aggregate list"

definition UnsupportedStatement :: error where
  "UnsupportedStatement = Error ''Only SELECT queries are supported''"

definition InvalidSelectSyntax :: error where
  "InvalidSelectSyntax = Error ''Invalid SELECT syntax''"

definition MissingFromClause :: error where
  "MissingFromClause = Error ''FROM clause is required''"

definition InvalidWhereClause :: error where
  "InvalidWhereClause = Error ''Invalid WHERE clause''"

text \<open>\<open>s.replace(/\s+/g, ' ')\<close>: every maximal run of white space becomes one space
  (\<open>prev\<close>: the previous character was white space).\<close>

fun collapseSpaces :: "bool \<Rightarrow> string \<Rightarrow> string" where
  "collapseSpaces prev [] = []"
| "collapseSpaces prev (c # cs) =
     (if isSpaceChar c then (if prev then collapseSpaces True cs
                             else CHR '' '' # collapseSpaces True cs)
      else c # collapseSpaces False cs)"

definition normalizeSql :: "string \<Rightarrow> string" where
  "normalizeSql sql = collapseSpaces False (trim sql)"

text \<open>\<open>s.split(',')\<close>\<close>

fun splitComma :: "string \<Rightarrow> string list" where
  "splitComma [] = [[]]"
| "splitComma (c # cs) =
     (if c = CHR '','' then [] # splitComma cs
      else (case splitComma cs of
              [] \<Rightarrow> [[c]]
            | p # ps \<Rightarrow> (c # p) # ps))"

definition parseWhere :: "string \<Rightarrow> error + Predicate" where
  "parseWhere whereClause =
     (case matchRegex False conditionPattern whereClause of
        None \<Rightarrow> Inl InvalidWhereClause
      | Some m \<Rightarrow>
          (let value = groupOr m 4
           in Inr \<lparr> column_p = groupOr m 1,
                    operator_p = groupOr m 2,
                    value_p = (if \<not> isNaN (JStr value) then JNum (parseFloat value)
                               else JStr value) \<rparr>))"

text \<open>The loop over the items of the SELECT list: an item that matches the aggregate
  pattern becomes an aggregate, any other a column.\<close>

fun parseSelectItems :: "string list \<Rightarrow> string list \<times> Aggregate list \<Rightarrow> string list \<times> Aggregate list" where
  "parseSelectItems [] (cols, aggs) = (cols, aggs)"
| "parseSelectItems (col # items) (cols, aggs) =
     (case matchRegex True aggregatePattern col of
        Some m \<Rightarrow>
          parseSelectItems items
            (cols, aggs @ [\<lparr> function_a = toUpperCase (groupOr m 1),
                              column_a = groupOr m 2,
                              alias_a = (case m 3 of
                                           Some a \<Rightarrow> if a \<noteq> [] then Some a else None
                                         | None \<Rightarrow> None) \<rparr>])
      | None \<Rightarrow> parseSelectItems items (cols @ [col], aggs))"

definition parse :: "string \<Rightarrow> error + Query" where
  "parse sql0 =
     (let sql = normalizeSql sql0
      in if \<not> startsWith (toUpperCase sql) ''SELECT'' then Inl UnsupportedStatement
         else case matchRegex True selectPattern sql of
           None \<Rightarrow> Inl InvalidSelectSyntax
         | Some selectMatch \<Rightarrow>
             (let selectClause = trim (groupOr selectMatch 1);
                  (cols, aggs) =
                     (if selectClause = ''*'' then ([''*''], [])
                      else parseSelectItems (map trim (splitComma selectClause)) ([], []))
              in case matchRegex True fromPattern sql of
                   None \<Rightarrow> Inl MissingFromClause
                 | Some fromMatch \<Rightarrow>
                     (case (case matchRegex True wherePattern sql of
                              Some whereMatch \<Rightarrow>
                                map_sum id Some (parseWhere (trim (groupOr whereMatch 1)))
                            | None \<Rightarrow> Inr None) of
                        Inl e \<Rightarrow> Inl e
                      | Inr wh \<Rightarrow>
                          Inr \<lparr> type_q = ''SELECT'',
                                table_q = groupOr fromMatch 1,
                                columns_q = cols,
                                where_q = wh,
                                groupBy_q =
                                  map_option (\<lambda>m. groupOr m 1) (matchRegex True groupByPattern sql),
                                orderBy_q =
                                  map_option
                                    (\<lambda>m. \<lparr> column_o = groupOr m 1,
                                            direction_o = (case m 2 of
                                                             Some d \<Rightarrow> if d \<noteq> [] then toUpperCase d
                                                                       else ''ASC''
                                                           | None \<Rightarrow> ''ASC'') \<rparr>)
                                    (matchRegex True orderByPattern sql),
                                limit_q =
                                  map_option (\<lambda>m. parseIntDigits (groupOr m 1))
                                    (matchRegex True limitPattern sql),
                                aggregates_q = aggs \<rparr>)))"

subsection \<open>createExecutionPlan\<close>

record PlanStep =
  step :: nat
  operation :: string
  target :: jsval
  description :: string
  cost :: string

text \<open>\<open>xs.join(', ')\<close>\<close>

fun joinComma :: "string list \<Rightarrow> string" where
  "joinComma [] = []"
| "joinComma [x] = x"
| "joinComma (x # y # ys) = x @ '', '' @ joinComma (y # ys)"

text \<open>\<open>if (query.limit)\<close>: a limit that is neither \<open>null\<close>, nor 0, nor \<open>NaN\<close>.\<close>

definition limitGiven :: "Query \<Rightarrow> bool" where
  "limitGiven query =
     (case limit_q query of Some n \<Rightarrow> n \<noteq> Fin 0 \<and> n \<noteq> NaN | None \<Rightarrow> False)"

definition createExecutionPlan :: "(jsnum \<Rightarrow> string) \<Rightarrow> Query \<Rightarrow> PlanStep list" where
  "createExecutionPlan numToStr query =
     (let steps0 = [\<lparr> step = 1, operation = ''Table Scan'', target = JStr (table_q query),
                       description = ''Scan table '' @ table_q query, cost = ''O(n)'' \<rparr>];
          steps1 =
            (case where_q query of
               Some w \<Rightarrow>
                 steps0 @ [\<lparr> step = 2, operation = ''Filter'',
                              target = JStr (column_p w @ '' '' @ operator_p w @ '' '' @
                                             toStringWith numToStr (value_p w)),
                              description = ''Apply predicate pushdown'', cost = ''O(n)'' \<rparr>]
             | None \<Rightarrow> steps0);
          steps2 =
            (if aggregates_q query \<noteq> [] then
               steps1 @ [\<lparr> step = length steps1 + 1, operation = ''Aggregate'',
                            target = JStr (joinComma
                              (map (\<lambda>a. function_a a @ ''('' @ column_a a @ '')'')
                                   (aggregates_q query))),
                            description = (case groupBy_q query of
                                             Some g \<Rightarrow> if g \<noteq> [] then ''Group by '' @ g
                                                       else ''Compute aggregates''
                                           | None \<Rightarrow> ''Compute aggregates''),
                            cost = (case groupBy_q query of
                                      Some g \<Rightarrow> if g \<noteq> [] then ''O(n log n)'' else ''O(n)''
                                    | None \<Rightarrow> ''O(n)'') \<rparr>]
             else steps1);
          steps3 =
            (case orderBy_q query of
               Some ob \<Rightarrow>
                 steps2 @ [\<lparr> step = length steps2 + 1, operation = ''Sort'',
                              target = JStr (column_o ob @ '' '' @ direction_o ob),
                              description = ''Sort results'', cost = ''O(n log n)'' \<rparr>]
             | None \<Rightarrow> steps2);
          steps4 =
            (if limitGiven query then
               steps3 @ [\<lparr> step = length steps3 + 1, operation = ''Limit'',
                            target = JNum (the (limit_q query)),
                            description = ''Return first '' @
                              numToStr (the (limit_q query)) @ '' rows'',
                            cost = ''O(1)'' \<rparr>]
             else steps3)
      in steps4 @ [\<lparr> step = length steps4 + 1, operation = ''Projection'',
                      target = JStr (joinComma (columns_q query)),
                      description = ''Project selected columns'', cost = ''O(m)'' \<rparr>])"

subsection \<open>executeQuery\<close>

text \<open>The comparison function handed to \<open>Array.prototype.sort\<close>.\<close>

definition orderCompare :: "OrderBy \<Rightarrow> obj \<Rightarrow> obj \<Rightarrow> int" where
  "orderCompare orderBy a b =
     (let aVal = getProp a (column_o orderBy);
          bVal = getProp b (column_o orderBy)
      in if jsLess aVal bVal then (if direction_o orderBy = ''ASC'' then - 1 else 1)
         else if jsLess bVal aVal then (if direction_o orderBy = ''ASC'' then 1 else - 1)
         else 0)"

text \<open>\<open>Array.prototype.sort\<close> with a comparison function is a stable sort. The language
  fixes its result when the function is a consistent order on the elements: the result
  is then the one stable sorted arrangement, which the stable insertion sort below
  computes. When the function is not a consistent order on the elements (a \<open>NaN\<close> key
  among numbers, strings mixed with numbers) the language leaves the arrangement to the
  implementation, and \<open>arraySort\<close> does not model it; every property of a sorted result
  is therefore stated under the hypothesis that the comparison is consistent.\<close>

fun insertSorted :: "('a \<Rightarrow> 'a \<Rightarrow> int) \<Rightarrow> 'a \<Rightarrow> 'a list \<Rightarrow> 'a list" where
  "insertSorted cmp x [] = [x]"
| "insertSorted cmp x (y # ys) =
     (if cmp x y \<le> 0 then x # y # ys else y # insertSorted cmp x ys)"

definition arraySort :: "('a \<Rightarrow> 'a \<Rightarrow> int) \<Rightarrow> 'a list \<Rightarrow> 'a list" where
  "arraySort cmp xs = foldr (insertSorted cmp) xs []"

definition applyOrderBy :: "obj list \<Rightarrow> OrderBy \<Rightarrow> obj list" where
  "applyOrderBy rows orderBy = arraySort (orderCompare orderBy) rows"

text \<open>\<open>data.slice(0, end)\<close>: \<open>end\<close> is truncated to an integer, counted from the end of
  the array when it is negative, and clamped to the array.\<close>

definition truncateRat :: "rat \<Rightarrow> int" where
  "truncateRat r = (if 0 \<le> r then \<lfloor>r\<rfloor> else \<lceil>r\<rceil>)"

definition sliceTo :: "jsnum \<Rightarrow> 'a list \<Rightarrow> 'a list" where
  "sliceTo n xs =
     (case n of
        Fin r \<Rightarrow> (let k = truncateRat r
                  in if k < 0 then take (nat (int (length xs) + k)) xs else take (nat k) xs)
      | NaN \<Rightarrow> []
      | PosInf \<Rightarrow> xs
      | NegInf \<Rightarrow> [])"

text \<open>The two steps at the end of \<open>executeQuery\<close>: \<open>if (query.orderBy) ...\<close> and
  \<open>if (query.limit) data = data.slice(0, query.limit)\<close>.\<close>

definition orderAndLimit :: "Query \<Rightarrow> obj list \<Rightarrow> obj list" where
  "orderAndLimit query data0 =
     (let data1 = (case orderBy_q query of
                     Some ob \<Rightarrow> applyOrderBy data0 ob
                   | None \<Rightarrow> data0)
      in if limitGiven query then sliceTo (the (limit_q query)) data1 else data1)"

text \<open>\<open>executeQuery\<close> reads \<open>this.store\<close> only; the store is threaded through the
  calls of its methods. Its first statement calls \<open>aggregate\<close> when the query has
  aggregates and \<open>scan\<close> otherwise.\<close>

definition dispatchQuery :: "(jsnum \<Rightarrow> string) \<Rightarrow> Query \<Rightarrow> ColumnStore \<Rightarrow> (error + QueryResult) \<times> ColumnStore" where
  "dispatchQuery numToStr query st =
     (if aggregates_q query \<noteq> [] then
        aggregate numToStr (table_q query) (aggregates_q query) (groupBy_q query)
          (where_q query) st
      else
        scan (table_q query)
          (if columns_q query \<noteq> [] \<and> hd (columns_q query) = ''*'' then None
           else Some (columns_q query))
          (where_q query) st)"

definition executeQuery :: "(jsnum \<Rightarrow> string) \<Rightarrow> Query \<Rightarrow> ColumnStore \<Rightarrow> (error + QueryResult) \<times> ColumnStore" where
  "executeQuery numToStr query st =
     (case dispatchQuery numToStr query st of
        (Inl e, st') \<Rightarrow> (Inl e, st')
      | (Inr result, st') \<Rightarrow>
          (Inr \<lparr> data_r = orderAndLimit query (data_r result),
                 metadata_r = metadata_r result \<rparr>, st'))"

subsection \<open>execute and the history\<close>

text \<open>An execution record: \<open>{sql, timestamp, rowsAffected, success, executionPlan}\<close> on
  success and \<open>{sql, timestamp, error, success}\<close> on failure (the \<open>executionTime\<close>
  string is not modelled; \<open>error\<close> holds the error whose message the source stores).\<close>

record Execution =
  sql_e :: string
  timestamp_e :: nat
  rowsAffected :: "nat option"
  success :: bool
  executionPlan :: "PlanStep list option"
  error_e :: "error option"

record ExecuteResult =
  data_x :: "obj list"
  metadata_x :: ResultMetadata
  execution :: Execution

record QueryEngine =
  store :: ColumnStore
  queryHistory :: "Execution list"

text \<open>\<open>execute\<close>: the \<open>try\<close> block and the \<open>catch\<close> block. \<open>Inl e\<close> is \<open>throw error\<close>.\<close>

definition execute :: "(jsnum \<Rightarrow> string) \<Rightarrow> nat \<Rightarrow> string \<Rightarrow> QueryEngine \<Rightarrow> (error + ExecuteResult) \<times> QueryEngine" where
  "execute numToStr now sql engine =
     (case (case parse sql of
              Inl e \<Rightarrow> (Inl e, store engine)
            | Inr query \<Rightarrow>
                (let plan = createExecutionPlan numToStr query
                 in case executeQuery numToStr query (store engine) of
                      (Inl e, st') \<Rightarrow> (Inl e, st')
                    | (Inr result, st') \<Rightarrow> (Inr (plan, result), st'))) of
        (Inr (plan, result), st') \<Rightarrow>
          (let exec = \<lparr> sql_e = sql, timestamp_e = now,
                        rowsAffected = Some (length (data_r result)), success = True,
                        executionPlan = Some plan, error_e = None \<rparr>
           in (Inr \<lparr> data_x = data_r result, metadata_x = metadata_r result,
                     execution = exec \<rparr>,
               engine\<lparr> store := st', queryHistory := queryHistory engine @ [exec] \<rparr>))
      | (Inl e, st') \<Rightarrow>
          (let exec = \<lparr> sql_e = sql, timestamp_e = now, rowsAffected = None,
                        success = False, executionPlan = None, error_e = Some e \<rparr>
           in (Inl e, engine\<lparr> store := st', queryHistory := queryHistory engine @ [exec] \<rparr>)))"

text \<open>\<open>xs.slice(start)\<close> for an integer \<open>start\<close>: a negative start counts from the end.\<close>

definition sliceFrom :: "'a list \<Rightarrow> int \<Rightarrow> 'a list" where
  "sliceFrom xs start =
     (let len = int (length xs);
          k = (if start < 0 then max (len + start) 0 else min start len)
      in drop (nat k) xs)"

text \<open>\<open>getHistory(limit = 10)\<close> is \<open>this.queryHistory.slice(-limit).reverse()\<close>; an
  omitted argument is \<open>None\<close>.\<close>

definition getHistory :: "int option \<Rightarrow> QueryEngine \<Rightarrow> Execution list" where
  "getHistory limit engine =
     (let n = (case limit of Some l \<Rightarrow> l | None \<Rightarrow> 10)
      in rev (sliceFrom (queryHistory engine) (- n)))"

definition clearHistory :: "QueryEngine \<Rightarrow> QueryEngine" where
  "clearHistory engine = engine\<lparr> queryHistory := [] \<rparr>"

section \<open>Notions used to state the properties\<close>

definition insertValues :: "string \<Rightarrow> Column \<Rightarrow> jsval list \<Rightarrow> Column" where
  "insertValues ty column vs = foldl (insertValue ty) column vs"

definition firstSeen :: "'a list \<Rightarrow> 'a list" where
  "firstSeen vs = rev (remdups (rev vs))"

definition denseCodes :: "'a list \<Rightarrow> ('a \<times> nat) list" where
  "denseCodes ks = zip ks [0..<length ks]"

definition dictInv :: "Column \<Rightarrow> jsval list \<Rightarrow> bool" where
  "dictInv column ks = (dictionary column = Some (denseCodes ks) \<and> distinct ks)"

text \<open>The columns a scan selects.\<close>

definition selectedColumns :: "Table \<Rightarrow> string list option \<Rightarrow> string list" where
  "selectedColumns table cols = (case cols of Some cs \<Rightarrow> cs | None \<Rightarrow> map fst (columns table))"

text \<open>A table as \<open>createTable\<close> makes it and \<open>insert\<close> keeps it: the schema names its
  columns, each once.\<close>

definition tableWf :: "Table \<Rightarrow> bool" where
  "tableWf table =
     (distinct (map fst (schema table)) \<and> map fst (columns table) = map fst (schema table))"

text \<open>The number of values and of presence flags of every column.\<close>

definition columnLengths :: "Table \<Rightarrow> (string \<times> nat \<times> nat) list" where
  "columnLengths table =
     map (\<lambda>c. (fst c, length (data (snd c)), length (nullBitmap (snd c)))) (columns table)"

text \<open>The values of the field \<open>n\<close> in a batch of rows, as \<open>insert\<close> reads them, and the
  values that \<open>insert\<close> takes for missing: \<open>null\<close> and \<open>undefined\<close>.\<close>

definition fieldValues :: "string \<Rightarrow> obj list \<Rightarrow> jsval list" where
  "fieldValues n rows = map (\<lambda>row. getProp row n) rows"


text \<open>The value that \<open>scan\<close> puts into a result row for row \<open>i\<close> of a column.\<close>

definition cellAt :: "Column \<Rightarrow> nat \<Rightarrow> jsval" where
  "cellAt column i =
     (if nullAt column i then JNull else decodeValue column (arrayGet (data column) i))"

text \<open>A table \<open>t\<close> with one string column \<open>s\<close>, the rows \<open>{s: "b"}\<close>, \<open>{s: "a"}\<close>,
  \<open>{s: "b"}\<close>, and a table whose schema names the column \<open>s\<close> twice, with these rows
  inserted.\<close>

definition stringStore :: ColumnStore where
  "stringStore = snd (createTable 0 ''t'' [(''s'', ''string'')] \<lparr> tables = [] \<rparr>)"

definition stringRows :: "obj list" where
  "stringRows = [plainObject [(''s'', JStr ''b'')], plainObject [(''s'', JStr ''a'')],
                 plainObject [(''s'', JStr ''b'')]]"

definition dupStringStore :: ColumnStore where
  "dupStringStore =
     snd (insert_cs 1 ''t'' stringRows
            (snd (createTable 0 ''t'' [(''s'', ''string''), (''s'', ''string'')]
                    \<lparr> tables = [] \<rparr>)))"





text \<open>A table \<open>t\<close> with one integer column \<open>v\<close> holding 3, null (an absent field), 1.\<close>

definition nullFixture :: ColumnStore where
  "nullFixture =
     snd (insert_cs 1 ''t''
            [plainObject [(''v'', JNum (Fin 3))], plainObject [],
             plainObject [(''v'', JNum (Fin 1))]]
            (snd (createTable 0 ''t'' [(''v'', ''integer'')] \<lparr> tables = [] \<rparr>)))"

definition nullFixtureColumn :: Column where
  "nullFixtureColumn =
     \<lparr> name = ''v'', type_c = ''integer'',
       data = [JNum (Fin 3), JNull, JNum (Fin 1)], nullBitmap = [0, 1, 0],
       compression = ''rle'', dictionary = None,
       stats = \<lparr> min_s = JNum (Fin 1), max_s = JNum (Fin 3), distinctCount = 0, nullCount = 1 \<rparr> \<rparr>"

definition nullFixtureTable :: Table where
  "nullFixtureTable =
     \<lparr> name_t = ''t'', schema = [(''v'', ''integer'')],
       columns = [(''v'', nullFixtureColumn)], rowCount = 3,
       metadata = \<lparr> created = 0, lastModified = 1, compressionRatio = Fin (24 / 13),
                    totalSize = 13 \<rparr> \<rparr>"

text \<open>Every column holds \<open>rowCount\<close> values and \<open>rowCount\<close> presence flags.\<close>

definition rowCountInv :: "Table \<Rightarrow> bool" where
  "rowCountInv table =
     list_all (\<lambda>c. length (data (snd c)) = rowCount table \<and>
                    length (nullBitmap (snd c)) = rowCount table) (columns table)"

text \<open>A table whose schema names the column \<open>a\<close> twice.\<close>

definition dupSchemaStore :: ColumnStore where
  "dupSchemaStore =
     snd (createTable 0 ''t'' [(''a'', ''integer''), (''a'', ''integer'')] \<lparr> tables = [] \<rparr>)"

text \<open>\<open>Number::toString\<close>, to instantiate the parameter \<open>numToStr\<close> in the examples: the
  decimal digits of an integer (of magnitude below \<open>10^21\<close>, where the source switches to
  exponents) and the names of the special values. A number that is not an integer is
  rendered by its decimal expansion, cut after 20 fractional digits (the source prints
  the shortest decimal that reads back as the same double); no example renders one.\<close>

definition digitChar :: "nat \<Rightarrow> char" where
  "digitChar d = ''0123456789'' ! (d mod 10)"

function showNat :: "nat \<Rightarrow> string" where
  "showNat n = (if n < 10 then [digitChar n] else showNat (n div 10) @ [digitChar (n mod 10)])"
  by pat_completeness auto
termination
  by (relation "measure id") auto

fun fractionDigits :: "nat \<Rightarrow> nat \<Rightarrow> nat \<Rightarrow> string" where
  "fractionDigits 0 r d = []"
| "fractionDigits (Suc fuel) r d =
     (if r = 0 then [] else digitChar ((10 * r) div d) # fractionDigits fuel ((10 * r) mod d) d)"

definition numberToString :: "jsnum \<Rightarrow> string" where
  "numberToString n =
     (case n of
        NaN \<Rightarrow> ''NaN''
      | PosInf \<Rightarrow> ''Infinity''
      | NegInf \<Rightarrow> ''-Infinity''
      | Fin r \<Rightarrow>
          (let p = nat \<bar>fst (quotient_of r)\<bar>;
               q = nat (snd (quotient_of r))
           in (if r < 0 then ''-'' else []) @ showNat (p div q) @
              (if p mod q = 0 then [] else ''.'' @ fractionDigits 20 (p mod q) q)))"

text \<open>\<open>p\<close> occurs in \<open>s\<close>, ignoring case.\<close>

definition occursIgnoringCase :: "string \<Rightarrow> string \<Rightarrow> bool" where
  "occursIgnoringCase p s = list_ex (\<lambda>k. litMatches True p (drop k s)) [0..<Suc (length s)]"

text \<open>The values of an ORDER BY field that \<open><\<close> orders consistently: values that all
  compare as strings (strings, and objects, which are converted to their strings), or
  values none of which compares as a string and whose numeric value is not \<open>NaN\<close>
  (numbers other than \<open>NaN\<close>, booleans, \<open>null\<close>).\<close>

definition comparesAsString :: "jsval \<Rightarrow> bool" where
  "comparesAsString v = isStr (toPrimitive v)"

definition comparesAsNumber :: "jsval \<Rightarrow> bool" where
  "comparesAsNumber v = (\<not> isStr (toPrimitive v) \<and> toNumber v \<noteq> NaN)"

definition comparableKeys :: "string \<Rightarrow> obj list \<Rightarrow> bool" where
  "comparableKeys col rows =
     (list_all (\<lambda>r. comparesAsNumber (getProp r col)) rows \<or>
      list_all (\<lambda>r. comparesAsString (getProp r col)) rows)"

text \<open>Rows in ascending and in descending order of a field.\<close>

definition ascendingBy :: "string \<Rightarrow> obj list \<Rightarrow> bool" where
  "ascendingBy col rows = sorted_wrt (\<lambda>a b. \<not> jsLess (getProp b col) (getProp a col)) rows"

definition descendingBy :: "string \<Rightarrow> obj list \<Rightarrow> bool" where
  "descendingBy col rows = sorted_wrt (\<lambda>a b. \<not> jsLess (getProp a col) (getProp b col)) rows"

text \<open>A table \<open>t\<close> with one integer column \<open>v\<close> holding 3, 1, 2.\<close>

definition orderFixture :: ColumnStore where
  "orderFixture =
     snd (insert_cs 1 ''t''
            [plainObject [(''v'', JNum (Fin 3))], plainObject [(''v'', JNum (Fin 1))],
             plainObject [(''v'', JNum (Fin 2))]]
            (snd (createTable 0 ''t'' [(''v'', ''integer'')] \<lparr> tables = [] \<rparr>)))"

text \<open>The non-null values of a column in a list of rows, as \<open>computeAggregate\<close> takes
  them.\<close>

definition nonNullValues :: "string \<Rightarrow> obj list \<Rightarrow> jsval list" where
  "nonNullValues col rows = filter (\<lambda>v. v \<noteq> JNull) (map (\<lambda>r. getProp r col) rows)"

definition isFiniteNumber :: "jsval \<Rightarrow> bool" where
  "isFiniteNumber v = (case v of JNum (Fin q) \<Rightarrow> True | _ \<Rightarrow> False)"

definition numberOf :: "jsval \<Rightarrow> rat" where
  "numberOf v = (case v of JNum (Fin q) \<Rightarrow> q | _ \<Rightarrow> 0)"

text \<open>\<open>m\<close> is a least (a greatest) element of \<open>vs\<close> in the order of \<open><\<close>, the order in
  which \<open>insert\<close> keeps the \<open>min\<close> and \<open>max\<close> of a column.\<close>

definition naturalMin :: "jsval list \<Rightarrow> jsval \<Rightarrow> bool" where
  "naturalMin vs m = (m \<in> set vs \<and> list_all (\<lambda>v. \<not> jsLess v m) vs)"

definition naturalMax :: "jsval list \<Rightarrow> jsval \<Rightarrow> bool" where
  "naturalMax vs m = (m \<in> set vs \<and> list_all (\<lambda>v. \<not> jsLess m v) vs)"

text \<open>The partition of rows by the value of the group-by column, the groups in the order
  in which their keys first occur, the rows of a group in row order.\<close>

definition groupsOf :: "string \<Rightarrow> obj list \<Rightarrow> (jsval \<times> obj list) list" where
  "groupsOf g rows =
     map (\<lambda>k. (k, filter (\<lambda>r. getProp r g = k) rows))
         (firstSeen (map (\<lambda>r. getProp r g) rows))"

definition aggregateFixture :: ColumnStore where
  "aggregateFixture =
     snd (insert_cs 1 ''t''
            [plainObject [(''d'', JStr ''X''), (''v'', JNum (Fin 10))],
             plainObject [(''d'', JStr ''X''), (''v'', JNum (Fin 20))],
             plainObject [(''d'', JStr ''Y''), (''v'', JNum (Fin 5))]]
            (snd (createTable 0 ''t'' [(''d'', ''string''), (''v'', ''integer'')]
                    \<lparr> tables = [] \<rparr>)))"

text \<open>The rows \<open>{d: "X", s: "a"}\<close>, \<open>{d: "X", s: "b"}\<close> in a table \<open>t\<close> with two string
  columns.\<close>

definition stringFixture :: ColumnStore where
  "stringFixture =
     snd (insert_cs 1 ''t''
            [plainObject [(''d'', JStr ''X''), (''s'', JStr ''a'')],
             plainObject [(''d'', JStr ''X''), (''s'', JStr ''b'')]]
            (snd (createTable 0 ''t'' [(''d'', ''string''), (''s'', ''string'')]
                    \<lparr> tables = [] \<rparr>)))"


section \<open>Auxiliary facts\<close>

subsection \<open>Maps and objects\<close>

lemma mapSet_fresh: "k \<notin> fst ` set m \<Longrightarrow> mapSet m k v = m @ [(k, v)]"
  by (induction m) auto

lemma map_of_mapSet: "map_of (mapSet m k v) k' = (if k' = k then Some v else map_of m k')"
  by (induction m) auto

lemma keys_mapSet: "map_of m k = Some v' \<Longrightarrow> map fst (mapSet m k v) = map fst m"
  by (induction m) (auto split: if_splits)

lemma setProp_plainObject:
  "k \<noteq> ''__proto__'' \<Longrightarrow> setProp (plainObject ps) k v = plainObject (mapSet ps k v)"
  by (simp add: setProp_def plainObject_def)


lemma inherited_names:
  "map fst objectPrototypeMembers =
     [''constructor'', ''hasOwnProperty'', ''isPrototypeOf'', ''propertyIsEnumerable'',
      ''toLocaleString'', ''toString'', ''valueOf'', ''__defineGetter__'', ''__defineSetter__'',
      ''__lookupGetter__'', ''__lookupSetter__'', ''__proto__'']"
  by (simp add: objectPrototypeMembers_def)



subsection \<open>Dictionary coding\<close>

lemma firstSeen_snoc:
  "firstSeen (vs @ [x]) = (if x \<in> set vs then firstSeen vs else firstSeen vs @ [x])"
  by (simp add: firstSeen_def)

lemma set_firstSeen [simp]: "set (firstSeen vs) = set vs"
  by (simp add: firstSeen_def)

lemma distinct_firstSeen [simp]: "distinct (firstSeen vs)"
  by (simp add: firstSeen_def)

lemma denseCodes_snoc: "denseCodes (ks @ [k]) = denseCodes ks @ [(k, length ks)]"
  by (simp add: denseCodes_def)

lemma fst_set_denseCodes: "fst ` set (denseCodes ks) = set ks"
proof -
  have "map fst (denseCodes ks) = ks" by (simp add: denseCodes_def)
  then have "set (map fst (denseCodes ks)) = set ks" by simp
  then show ?thesis by simp
qed

lemma length_denseCodes [simp]: "length (denseCodes ks) = length ks"
  by (simp add: denseCodes_def)

lemma map_of_denseCodes:
  "distinct ks \<Longrightarrow> i < length ks \<Longrightarrow> map_of (denseCodes ks) (ks ! i) = Some i"
proof -
  assume d: "distinct ks" and i: "i < length ks"
  have "map_of (zip ks [0..<length ks]) (ks ! i) = Some ([0..<length ks] ! i)"
    using d i by (intro map_of_zip_nth) auto
  then show ?thesis using i by (simp add: denseCodes_def)
qed

lemma mapHas_denseCodes: "mapHas (denseCodes ks) k = (k \<in> set ks)"
  unfolding mapHas_def using fst_set_denseCodes[of ks]
  by (metis domIff dom_map_of_conv_image_fst)

lemma reverseLookup_zip:
  "n \<le> i \<Longrightarrow> i < n + length ks \<Longrightarrow>
   reverseLookup (zip ks [n..<n + length ks]) (JNum (Fin (of_nat i))) = ks ! (i - n)"
proof (induction ks arbitrary: n)
  case Nil
  then show ?case by simp
next
  case (Cons k ks)
  have "n < n + length (k # ks)" by simp
  from upt_conv_Cons[OF this]
  have z: "zip (k # ks) [n..<n + length (k # ks)] = (k, n) # zip ks [Suc n..<Suc n + length ks]"
    by (simp del: upt_Suc)
  show ?case
  proof (cases "i = n")
    case True
    then show ?thesis unfolding z by (simp add: strictEq_def)
  next
    case False
    with Cons.prems have "Suc n \<le> i" "i < Suc n + length ks" by auto
    from Cons.IH[OF this] False Cons.prems show ?thesis
      unfolding z by (simp add: strictEq_def Suc_diff_le del: upt_Suc)
  qed
qed

lemma reverseLookup_denseCodes:
  "i < length ks \<Longrightarrow> reverseLookup (denseCodes ks) (JNum (Fin (of_nat i))) = ks ! i"
  using reverseLookup_zip[of 0 i ks] by (simp add: denseCodes_def)


lemma insertValue_string_step:
  assumes inv: "dictInv column ks" and nn: "value \<noteq> JNull" "value \<noteq> JUndef"
  defines "ks' \<equiv> (if value \<in> set ks then ks else ks @ [value])"
  shows "dictInv (insertValue ''string'' column value) ks'"
    and "\<exists>code<length ks'. data (insertValue ''string'' column value)
            = data column @ [JNum (Fin (of_nat code))] \<and> ks' ! code = value"
    and "nullBitmap (insertValue ''string'' column value) = nullBitmap column @ [0]"
proof -
  from inv have d: "dictionary column = Some (denseCodes ks)" and dist: "distinct ks"
    by (simp_all add: dictInv_def)
  have dk: "distinct ks'" using dist by (simp add: ks'_def)
  have dict': "(if mapHas (denseCodes ks) value then denseCodes ks
                else mapSet (denseCodes ks) value (length (denseCodes ks))) = denseCodes ks'"
    by (simp add: mapHas_denseCodes ks'_def denseCodes_snoc mapSet_fresh fst_set_denseCodes)
  have mem: "value \<in> set ks'" by (simp add: ks'_def)
  then obtain code where c: "code < length ks'" "ks' ! code = value"
    by (auto simp: in_set_conv_nth)
  with dk have look: "map_of (denseCodes ks') value = Some code"
    using map_of_denseCodes[of ks' code] by simp
  show "dictInv (insertValue ''string'' column value) ks'"
    using nn d dk dict' by (simp add: insertValue_def updateColumnStats_def Let_def dictInv_def)
  show "\<exists>code<length ks'. data (insertValue ''string'' column value)
            = data column @ [JNum (Fin (of_nat code))] \<and> ks' ! code = value"
    using nn d dict' look c
    by (intro exI[of _ code]) (simp add: insertValue_def updateColumnStats_def Let_def)
  show "nullBitmap (insertValue ''string'' column value) = nullBitmap column @ [0]"
    using nn d by (simp add: insertValue_def updateColumnStats_def Let_def)
qed

lemma insertValues_snoc:
  "insertValues ty column (vs @ [v]) = insertValue ty (insertValues ty column vs) v"
  by (simp add: insertValues_def)

lemma insertValues_strings:
  fixes vs :: "string list" and nm :: string
  defines "column \<equiv> insertValues ''string'' (newColumn nm ''string'') (map JStr vs)"
  shows "dictInv column (map JStr (firstSeen vs)) \<and>
         length (data column) = length vs \<and>
         nullBitmap column = replicate (length vs) 0 \<and>
         (\<forall>i<length vs. \<exists>code<length (firstSeen vs).
             data column ! i = JNum (Fin (of_nat code)) \<and> firstSeen vs ! code = vs ! i)"
  unfolding column_def
proof (induction vs rule: rev_induct)
  case Nil
  show ?case
    by (simp add: insertValues_def newColumn_def dictInv_def denseCodes_def firstSeen_def)
next
  case (snoc x xs)
  let ?c = "insertValues ''string'' (newColumn nm ''string'') (map JStr xs)"
  let ?ks = "map JStr (firstSeen xs)"
  let ?ks' = "if JStr x \<in> set ?ks then ?ks else ?ks @ [JStr x]"
  from snoc have inv: "dictInv ?c ?ks" and len: "length (data ?c) = length xs"
    and nb: "nullBitmap ?c = replicate (length xs) 0"
    and codes: "\<forall>i<length xs. \<exists>code<length (firstSeen xs).
             data ?c ! i = JNum (Fin (of_nat code)) \<and> firstSeen xs ! code = xs ! i"
    by simp_all
  have ks': "?ks' = map JStr (firstSeen (xs @ [x]))"
    by (auto simp: firstSeen_snoc)
  have step: "insertValues ''string'' (newColumn nm ''string'') (map JStr (xs @ [x]))
        = insertValue ''string'' ?c (JStr x)"
    by (simp add: insertValues_snoc)
  from insertValue_string_step(1)[OF inv, of "JStr x"]
  have i1: "dictInv (insertValue ''string'' ?c (JStr x)) (map JStr (firstSeen (xs @ [x])))"
    using ks' by simp
  from insertValue_string_step(2)[OF inv, of "JStr x"] obtain code where
    code: "code < length ?ks'" "data (insertValue ''string'' ?c (JStr x)) = data ?c @ [JNum (Fin (of_nat code))]"
       "?ks' ! code = JStr x"
    by auto
  from code(1,3) have code': "code < length (firstSeen (xs @ [x]))" "firstSeen (xs @ [x]) ! code = x"
    unfolding ks' by simp_all
  from insertValue_string_step(3)[OF inv, of "JStr x"]
  have i3: "nullBitmap (insertValue ''string'' ?c (JStr x)) = replicate (length (xs @ [x])) 0"
    using nb by (simp add: replicate_append_same)
  have i4: "\<forall>i<length (xs @ [x]). \<exists>c<length (firstSeen (xs @ [x])).
             data (insertValue ''string'' ?c (JStr x)) ! i = JNum (Fin (of_nat c))
             \<and> firstSeen (xs @ [x]) ! c = (xs @ [x]) ! i"
  proof (intro allI impI)
    fix i assume "i < length (xs @ [x])"
    then consider "i < length xs" | "i = length xs" by fastforce
    then show "\<exists>c<length (firstSeen (xs @ [x])).
             data (insertValue ''string'' ?c (JStr x)) ! i = JNum (Fin (of_nat c))
             \<and> firstSeen (xs @ [x]) ! c = (xs @ [x]) ! i"
    proof cases
      case 1
      with codes obtain c where c: "c < length (firstSeen xs)"
        "data ?c ! i = JNum (Fin (of_nat c))" "firstSeen xs ! c = xs ! i" by blast
      show ?thesis using 1 c len code(2)
        by (intro exI[of _ c]) (auto simp: firstSeen_snoc nth_append)
    next
      case 2
      show ?thesis using 2 code' code(2) len
        by (intro exI[of _ code]) (simp add: nth_append)
    qed
  qed
  show ?case unfolding step using i1 i3 i4 code(2) len by simp
qed


subsection \<open>Scanning\<close>






text \<open>A scan without a predicate materialises every row.\<close>

lemma materializeRows_total:
  "(\<And>i. i \<in> set ixs \<Longrightarrow> materialize table i sel (plainObject []) = Inr (f i)) \<Longrightarrow>
   materializeRows table sel bm ixs acc =
     Inr (acc @ map f (filter (\<lambda>i. i < length bm \<and> bm ! i) ixs))"
proof (induction ixs arbitrary: acc)
  case Nil
  show ?case by simp
next
  case (Cons i ixs)
  have m: "materialize table i sel (plainObject []) = Inr (f i)"
    using Cons.prems by simp
  have r: "materializeRows table sel bm ixs acc' =
     Inr (acc' @ map f (filter (\<lambda>i. i < length bm \<and> bm ! i) ixs))" for acc'
  proof (rule Cons.IH)
    fix j assume "j \<in> set ixs"
    then show "materialize table j sel (plainObject []) = Inr (f j)"
      using Cons.prems by simp
  qed
  show ?case using m r by simp
qed

lemma scanTable_column:
  assumes "map_of (columns table) n = Some column"
  shows "scanTable table (Some [n]) None =
           Inr \<lparr> data_r = map (\<lambda>i. setProp (plainObject []) n (cellAt column i))
                             [0..<rowCount table],
                 metadata_r = ScanMetadata (rowCount table) (rowCount table) 1 \<rparr>"
proof -
  have m: "materialize table i [n] (plainObject []) =
             Inr (setProp (plainObject []) n (cellAt column i))" for i
    using assms by (simp add: cellAt_def Let_def)
  have f: "filter (\<lambda>i. i < length (replicate (rowCount table) True) \<and>
                        replicate (rowCount table) True ! i) [0..<rowCount table]
           = [0..<rowCount table]"
    by (simp add: filter_id_conv)
  have "materializeRows table [n] (replicate (rowCount table) True) [0..<rowCount table] []
        = Inr (map (\<lambda>i. setProp (plainObject []) n (cellAt column i)) [0..<rowCount table])"
    using materializeRows_total[where f = "\<lambda>i. setProp (plainObject []) n (cellAt column i)"
        and table = table and sel = "[n]" and bm = "replicate (rowCount table) True"
        and ixs = "[0..<rowCount table]" and acc = "[]"] m
    unfolding f by simp
  then show ?thesis by (simp add: scanTable_def Let_def)
qed

subsection \<open>Inserting a batch\<close>

lemma insertValues_Cons:
  "insertValues ty column (v # vs) = insertValues ty (insertValue ty column v) vs"
  by (simp add: insertValues_def)

lemma insertValues_append:
  "insertValues ty column (us @ vs) = insertValues ty (insertValues ty column us) vs"
  by (simp add: insertValues_def)

text \<open>One row, over schema entries with distinct names that all have a column: every
  named column receives the row's field of its name, no other column changes.\<close>

lemma insertFields_columns:
  assumes "distinct (map fst cols)" and "set (map fst cols) \<subseteq> fst ` set (columns table)"
  shows "\<exists>table'. insertFields row cols table = (None, table') \<and>
           schema table' = schema table \<and> rowCount table' = rowCount table \<and>
           metadata table' = metadata table \<and> name_t table' = name_t table \<and>
           map fst (columns table') = map fst (columns table) \<and>
           (\<forall>n c. map_of (columns table) n = Some c \<longrightarrow>
              map_of (columns table') n =
                Some (case map_of cols n of
                        Some ty \<Rightarrow> insertValue ty c (getProp row n)
                      | None \<Rightarrow> c))"
  using assms
proof (induction cols arbitrary: table)
  case Nil
  then show ?case by simp
next
  case (Cons col cols)
  from Cons.prems(2) have "fst col \<in> fst ` set (columns table)" by simp
  then obtain column where column: "map_of (columns table) (fst col) = Some column"
    by (metis domD dom_map_of_conv_image_fst)
  let ?c1 = "insertValue (snd col) column (getProp row (fst col))"
  let ?t1 = "table\<lparr> columns := mapSet (columns table) (fst col) ?c1 \<rparr>"
  have keys1: "map fst (columns ?t1) = map fst (columns table)"
    using keys_mapSet[OF column] by simp
  have d: "distinct (map fst cols)" and notin: "fst col \<notin> set (map fst cols)"
    using Cons.prems(1) by simp_all
  have none: "map_of cols (fst col) = None"
    using notin by (metis domIff dom_map_of_conv_image_fst list.set_map)
  have sub: "set (map fst cols) \<subseteq> fst ` set (columns ?t1)"
  proof -
    have "fst ` set (columns ?t1) = set (map fst (columns ?t1))" by simp
    also have "\<dots> = fst ` set (columns table)" unfolding keys1 by simp
    finally show ?thesis using Cons.prems(2) by simp
  qed
  from Cons.IH[OF d sub] obtain table' where
    r: "insertFields row cols ?t1 = (None, table')"
    and same: "schema table' = schema ?t1" "rowCount table' = rowCount ?t1"
      "metadata table' = metadata ?t1" "name_t table' = name_t ?t1"
      "map fst (columns table') = map fst (columns ?t1)"
    and cs: "\<forall>n c. map_of (columns ?t1) n = Some c \<longrightarrow>
              map_of (columns table') n =
                Some (case map_of cols n of
                        Some ty \<Rightarrow> insertValue ty c (getProp row n)
                      | None \<Rightarrow> c)"
    by blast
  have res: "insertFields row (col # cols) table = (None, table')"
    using column r by simp
  have "\<forall>n c. map_of (columns table) n = Some c \<longrightarrow>
              map_of (columns table') n =
                Some (case map_of (col # cols) n of
                        Some ty \<Rightarrow> insertValue ty c (getProp row n)
                      | None \<Rightarrow> c)"
  proof (intro allI impI)
    fix n c assume nc: "map_of (columns table) n = Some c"
    show "map_of (columns table') n =
                Some (case map_of (col # cols) n of
                        Some ty \<Rightarrow> insertValue ty c (getProp row n)
                      | None \<Rightarrow> c)"
    proof (cases "n = fst col")
      case True
      then have "map_of (columns ?t1) n = Some ?c1" by (simp add: map_of_mapSet)
      with cs have "map_of (columns table') n =
                Some (case map_of cols n of
                        Some ty \<Rightarrow> insertValue ty ?c1 (getProp row n)
                      | None \<Rightarrow> ?c1)"
        by blast
      moreover from True nc column have "c = column" by simp
      moreover have "map_of (col # cols) n = Some (snd col)"
        using True by (cases col) simp
      ultimately show ?thesis using True none by simp
    next
      case False
      then have "map_of (columns ?t1) n = Some c" using nc by (simp add: map_of_mapSet)
      with cs have "map_of (columns table') n =
                Some (case map_of cols n of
                        Some ty \<Rightarrow> insertValue ty c (getProp row n)
                      | None \<Rightarrow> c)"
        by blast
      moreover have "map_of (col # cols) n = map_of cols n"
        using False by (cases col) simp
      ultimately show ?thesis by simp
    qed
  qed
  with res same keys1 show ?case by simp
qed

text \<open>A batch of rows, for a table whose schema names each of its columns once: the
  column of a schema entry receives the fields of that name, in row order.\<close>

lemma insertRows_columns:
  assumes "tableWf table"
  shows "\<exists>table'. insertRows rows table = (None, table') \<and>
           tableWf table' \<and> schema table' = schema table \<and>
           rowCount table' = rowCount table + length rows \<and>
           metadata table' = metadata table \<and> name_t table' = name_t table \<and>
           map fst (columns table') = map fst (columns table) \<and>
           (\<forall>n c. map_of (columns table) n = Some c \<longrightarrow>
              (\<exists>ty. map_of (schema table) n = Some ty \<and>
                 map_of (columns table') n = Some (insertValues ty c (fieldValues n rows))))"
  using assms
proof (induction rows arbitrary: table)
  case Nil
  have "\<exists>ty. map_of (schema table) n = Some ty" if "map_of (columns table) n = Some c" for n c
  proof -
    from that have "n \<in> fst ` set (columns table)" by (metis domI dom_map_of_conv_image_fst)
    then have "n \<in> set (map fst (schema table))"
      using Nil by (metis list.set_map tableWf_def)
    then show ?thesis by (metis domD dom_map_of_conv_image_fst list.set_map)
  qed
  with Nil show ?case by (simp add: insertValues_def fieldValues_def)
next
  case (Cons row rows)
  from Cons.prems have d: "distinct (map fst (schema table))"
    and k: "map fst (columns table) = map fst (schema table)"
    by (simp_all add: tableWf_def)
  have sub: "set (map fst (schema table)) \<subseteq> fst ` set (columns table)"
    using k by (metis list.set_map order_refl)
  from insertFields_columns[OF d sub, of row] obtain t1 where
    r1: "insertFields row (schema table) table = (None, t1)"
    and same1: "schema t1 = schema table" "rowCount t1 = rowCount table"
      "metadata t1 = metadata table" "name_t t1 = name_t table"
      "map fst (columns t1) = map fst (columns table)"
    and cs1: "\<forall>n c. map_of (columns table) n = Some c \<longrightarrow>
              map_of (columns t1) n =
                Some (case map_of (schema table) n of
                        Some ty \<Rightarrow> insertValue ty c (getProp row n)
                      | None \<Rightarrow> c)"
    by blast
  let ?t2 = "t1\<lparr> rowCount := rowCount t1 + 1 \<rparr>"
  have wf2: "tableWf ?t2" using d k same1 by (simp add: tableWf_def)
  from Cons.IH[OF wf2] obtain table' where
    r2: "insertRows rows ?t2 = (None, table')"
    and wf': "tableWf table'"
    and same2: "schema table' = schema ?t2" "rowCount table' = rowCount ?t2 + length rows"
      "metadata table' = metadata ?t2" "name_t table' = name_t ?t2"
      "map fst (columns table') = map fst (columns ?t2)"
    and cs2: "\<forall>n c. map_of (columns ?t2) n = Some c \<longrightarrow>
              (\<exists>ty. map_of (schema ?t2) n = Some ty \<and>
                 map_of (columns table') n = Some (insertValues ty c (fieldValues n rows)))"
    by blast
  have res: "insertRows (row # rows) table = (None, table')"
    using r1 r2 by simp
  have "\<forall>n c. map_of (columns table) n = Some c \<longrightarrow>
              (\<exists>ty. map_of (schema table) n = Some ty \<and>
                 map_of (columns table') n =
                   Some (insertValues ty c (fieldValues n (row # rows))))"
  proof (intro allI impI)
    fix n c assume nc: "map_of (columns table) n = Some c"
    let ?c1 = "case map_of (schema table) n of
                 Some ty \<Rightarrow> insertValue ty c (getProp row n)
               | None \<Rightarrow> c"
    from cs1 nc have "map_of (columns t1) n = Some ?c1" by blast
    then have "map_of (columns ?t2) n = Some ?c1" by simp
    with cs2 obtain ty where ty: "map_of (schema ?t2) n = Some ty"
      "map_of (columns table') n = Some (insertValues ty ?c1 (fieldValues n rows))"
      by blast
    from ty(1) have ty': "map_of (schema table) n = Some ty" using same1 by simp
    with ty(2) show "\<exists>ty. map_of (schema table) n = Some ty \<and>
                 map_of (columns table') n =
                   Some (insertValues ty c (fieldValues n (row # rows)))"
      by (simp add: insertValues_Cons fieldValues_def)
  qed
  with res wf' same1 same2 show ?case by simp
qed

text \<open>The same for \<open>insert\<close>, which then stamps the table and estimates its size.\<close>

lemma insert_cs_columns:
  assumes "map_of (tables st) tableName = Some table" and "tableWf table"
  shows "\<exists>res st' table'.
           insert_cs now tableName rows st = (Inr res, st') \<and>
           rowsInserted res = length rows \<and>
           map_of (tables st') tableName = Some table' \<and>
           tableWf table' \<and> schema table' = schema table \<and>
           rowCount table' = rowCount table + length rows \<and>
           map fst (columns table') = map fst (columns table) \<and>
           (\<forall>n c. map_of (columns table) n = Some c \<longrightarrow>
              (\<exists>ty. map_of (schema table) n = Some ty \<and>
                 map_of (columns table') n = Some (insertValues ty c (fieldValues n rows))))"
proof -
  from insertRows_columns[OF assms(2), of rows] obtain t1 where
    r: "insertRows rows table = (None, t1)" and wf1: "tableWf t1"
    and same: "schema t1 = schema table" "rowCount t1 = rowCount table + length rows"
      "map fst (columns t1) = map fst (columns table)"
    and cs: "\<forall>n c. map_of (columns table) n = Some c \<longrightarrow>
              (\<exists>ty. map_of (schema table) n = Some ty \<and>
                 map_of (columns t1) n = Some (insertValues ty c (fieldValues n rows)))"
    by blast
  let ?t2 = "t1\<lparr> metadata := (metadata t1)\<lparr> lastModified := now \<rparr> \<rparr>"
  let ?t3 = "snd (calculateCompression ?t2)"
  let ?res = "\<lparr> rowsInserted = length rows, compressionRatio_i = fst (calculateCompression ?t2) \<rparr>"
  let ?st' = "st\<lparr> tables := mapSet (tables st) tableName ?t3 \<rparr>"
  have t3: "columns ?t3 = columns t1" "rowCount ?t3 = rowCount t1" "schema ?t3 = schema t1"
    by (simp_all add: calculateCompression_def Let_def)
  have ins: "insert_cs now tableName rows st = (Inr ?res, ?st')"
    using assms(1) r by (simp add: insert_cs_def Let_def split_beta)
  have look: "map_of (tables ?st') tableName = Some ?t3"
    by (simp add: map_of_mapSet)
  have wf3: "tableWf ?t3" using wf1 t3 by (simp add: tableWf_def)
  show ?thesis
    using ins look wf3 same cs t3
    by (intro exI[of _ ?res] exI[of _ ?st'] exI[of _ ?t3]) simp
qed

lemma insertValue_lengths:
  "length (data (insertValue ty column value)) = Suc (length (data column))"
  "length (nullBitmap (insertValue ty column value)) = Suc (length (nullBitmap column))"
  by (simp_all add: insertValue_def updateColumnStats_def Let_def split: option.splits)

lemma insertValues_lengths:
  "length (data (insertValues ty column vs)) = length (data column) + length vs"
  "length (nullBitmap (insertValues ty column vs)) = length (nullBitmap column) + length vs"
  by (induction vs arbitrary: column) (simp_all add: insertValues_Cons insertValue_lengths, simp_all add: insertValues_def)

lemma createTable_columns:
  "distinct (map fst sch) \<Longrightarrow> set (map fst sch) \<inter> fst ` set acc = {} \<Longrightarrow>
   foldl (\<lambda>cs col. mapSet cs (fst col) (newColumn (fst col) (snd col))) acc sch
   = acc @ map (\<lambda>col. (fst col, newColumn (fst col) (snd col))) sch"
proof (induction sch arbitrary: acc)
  case Nil
  then show ?case by simp
next
  case (Cons col sch)
  have fresh: "fst col \<notin> fst ` set acc" using Cons.prems(2) by auto
  have "set (map fst sch) \<inter> fst ` set (acc @ [(fst col, newColumn (fst col) (snd col))]) = {}"
    using Cons.prems by auto
  from Cons.IH[OF _ this] Cons.prems(1) fresh show ?case
    by (simp add: mapSet_fresh)
qed

text \<open>\<open>createTable\<close> on a schema with distinct names registers a well-formed, empty
  table.\<close>

lemma createTable_wf:
  assumes "distinct (map fst sch)"
  shows "map_of (tables (snd (createTable now tableName sch st))) tableName
           = Some (fst (createTable now tableName sch st))"
    and "tableWf (fst (createTable now tableName sch st))"
    and "rowCountInv (fst (createTable now tableName sch st))"
    and "rowCount (fst (createTable now tableName sch st)) = 0"
  using assms createTable_columns[OF assms, of "[]"]
  by (simp_all add: createTable_def Let_def map_of_mapSet tableWf_def rowCountInv_def
        comp_def newColumn_def list_all_iff)


subsection \<open>Missing values in a batch\<close>











subsection \<open>Sorting keeps the rows\<close>

lemma mset_insertSorted: "mset (insertSorted cmp x ys) = add_mset x (mset ys)"
  by (induction ys) auto

lemma mset_arraySort: "mset (arraySort cmp xs) = mset xs"
  by (induction xs) (auto simp: arraySort_def mset_insertSorted)

lemma set_arraySort: "set (arraySort cmp xs) = set xs"
  using mset_arraySort[of cmp xs] by (metis set_mset_mset)

lemma length_arraySort: "length (arraySort cmp xs) = length xs"
  using mset_arraySort[of cmp xs] by (metis size_mset)


section \<open>Dictionary coding\<close>

text \<open>
  Claim C1 (round-trip dictionary coding), amended. Let a table name each of its columns
  once, and let the string column \<open>n\<close> hold the strings \<open>us\<close> inserted so far. Then an
  insert of rows whose fields \<open>n\<close> are the strings \<open>vs\<close> succeeds and leaves the column
  holding \<open>us @ vs\<close>: its dictionary maps the distinct strings, in first-seen order, to
  the codes \<open>0, 1, 2, ...\<close>; it stores for every inserted string the code of that
  string; decoding every stored code through the dictionary, by the reverse lookup of
  \<open>scan\<close>, gives back exactly the strings; and, when the column is not named
  \<open>__proto__\<close>, a scan of the column returns one row per inserted string, in order,
  carrying that string.
\<close>

theorem dictionary_coding_roundtrip:
  assumes "map_of (tables st) t = Some table"
    and "tableWf table"
    and "map_of (schema table) n = Some ''string''"
    and "map_of (columns table) n =
           Some (insertValues ''string'' (newColumn n ''string'') (map JStr us))"
    and "rowCount table = length us"
    and "fieldValues n rows = map JStr vs"
  shows "\<exists>res st' table' column.
           insert_cs now t rows st = (Inr res, st') \<and>
           map_of (tables st') t = Some table' \<and>
           tableWf table' \<and>
           map_of (schema table') n = Some ''string'' \<and>
           map_of (columns table') n = Some column \<and>
           column = insertValues ''string'' (newColumn n ''string'') (map JStr (us @ vs)) \<and>
           rowCount table' = length (us @ vs) \<and>
           (let keys = firstSeen (us @ vs)
            in dictionary column = Some (zip (map JStr keys) [0..<length keys]) \<and>
               length (data column) = length (us @ vs) \<and>
               (\<forall>i<length (us @ vs). \<exists>code<length keys.
                   data column ! i = JNum (Fin (of_nat code)) \<and> keys ! code = (us @ vs) ! i) \<and>
               map (decodeValue column) (data column) = map JStr (us @ vs)) \<and>
           (n \<noteq> ''__proto__'' \<longrightarrow>
              scan t (Some [n]) None st' =
                (Inr \<lparr> data_r = map (\<lambda>s. plainObject [(n, JStr s)]) (us @ vs),
                       metadata_r = ScanMetadata (length (us @ vs)) (length (us @ vs)) 1 \<rparr>,
                 st'))"
proof -
  let ?all = "us @ vs"
  let ?old = "insertValues ''string'' (newColumn n ''string'') (map JStr us)"
  let ?c = "insertValues ''string'' (newColumn n ''string'') (map JStr ?all)"
  let ?keys = "firstSeen ?all"
  from insert_cs_columns[OF assms(1,2), of now rows] obtain res st' table' where
    ins: "insert_cs now t rows st = (Inr res, st')"
    and look: "map_of (tables st') t = Some table'"
    and wf': "tableWf table'" and sch': "schema table' = schema table"
    and rc': "rowCount table' = rowCount table + length rows"
    and cs: "\<forall>n c. map_of (columns table) n = Some c \<longrightarrow>
              (\<exists>ty. map_of (schema table) n = Some ty \<and>
                 map_of (columns table') n = Some (insertValues ty c (fieldValues n rows)))"
    by blast
  from cs assms(3,4) have "map_of (columns table') n
      = Some (insertValues ''string'' ?old (fieldValues n rows))"
    by fastforce
  then have col: "map_of (columns table') n = Some ?c"
    using assms(6) by (simp add: insertValues_append)
  have "length rows = length vs"
    using assms(6) by (metis fieldValues_def length_map)
  with rc' assms(5) have rc: "rowCount table' = length ?all" by simp
  from insertValues_strings[of n ?all]
  have inv: "dictInv ?c (map JStr ?keys)" and len: "length (data ?c) = length ?all"
    and nb: "nullBitmap ?c = replicate (length ?all) 0"
    and codes: "\<forall>i<length ?all. \<exists>code<length ?keys.
          data ?c ! i = JNum (Fin (of_nat code)) \<and> ?keys ! code = ?all ! i"
    by simp_all
  from inv have d: "dictionary ?c = Some (denseCodes (map JStr ?keys))"
    by (simp add: dictInv_def)
  then have d': "dictionary ?c = Some (zip (map JStr ?keys) [0..<length ?keys])"
    by (simp add: denseCodes_def)
  have cell: "decodeValue ?c (data ?c ! i) = JStr (?all ! i)" if i: "i < length ?all" for i
  proof -
    from codes i obtain code where c: "code < length ?keys"
      "data ?c ! i = JNum (Fin (of_nat code))" "?keys ! code = ?all ! i" by blast
    have "decodeValue ?c (data ?c ! i) = map JStr ?keys ! code"
      using d c(1,2) reverseLookup_denseCodes[of code "map JStr ?keys"]
      by (simp add: decodeValue_def)
    then show ?thesis using c by simp
  qed
  have dec: "map (decodeValue ?c) (data ?c) = map JStr ?all"
  proof (rule nth_equalityI)
    show "length (map (decodeValue ?c) (data ?c)) = length (map JStr ?all)" using len by simp
  next
    fix i assume "i < length (map (decodeValue ?c) (data ?c))"
    then have i: "i < length ?all" using len by simp
    with cell[OF i] len show "map (decodeValue ?c) (data ?c) ! i = map JStr ?all ! i"
      by (simp del: map_append)
  qed
  have sc: "scan t (Some [n]) None st' =
                (Inr \<lparr> data_r = map (\<lambda>s. plainObject [(n, JStr s)]) ?all,
                       metadata_r = ScanMetadata (length ?all) (length ?all) 1 \<rparr>,
                 st')" if n: "n \<noteq> ''__proto__''"
  proof -
    have "cellAt ?c i = JStr (?all ! i)" if i: "i < length ?all" for i
      using cell[OF i] i len nb by (simp add: cellAt_def nullAt_def arrayGet_def)
    then have "map (\<lambda>i. setProp (plainObject []) n (cellAt ?c i)) [0..<length ?all]
          = map (\<lambda>i. plainObject [(n, JStr (?all ! i))]) [0..<length ?all]"
      using n by (simp add: setProp_plainObject)
    also have "\<dots> = map (\<lambda>s. plainObject [(n, JStr s)]) (map (\<lambda>i. ?all ! i) [0..<length ?all])"
      by (simp add: comp_def)
    also have "\<dots> = map (\<lambda>s. plainObject [(n, JStr s)]) ?all"
      by (simp only: map_nth)
    finally show ?thesis
      using look scanTable_column[OF col] rc by (simp add: scan_def)
  qed
  have sch: "map_of (schema table') n = Some ''string''" using sch' assms(3) by simp
  show ?thesis
    using ins look wf' sch col rc d' len codes dec sc
    by (intro exI[of _ res] exI[of _ st'] exI[of _ table'] exI[of _ ?c]) (simp add: Let_def)
qed

text \<open>Inserting \<open>["b", "a", "b"]\<close> into a new table gives the codes \<open>{b: 0, a: 1}\<close>, and the
  scan gives the three strings back.\<close>

lemma roundtrip_example:
  "insertValues ''string'' (newColumn ''s'' ''string'') [JStr ''b'', JStr ''a'', JStr ''b'']
   = \<lparr> name = ''s'', type_c = ''string'',
       data = [JNum (Fin 0), JNum (Fin 1), JNum (Fin 0)], nullBitmap = [0, 0, 0],
       compression = ''dictionary'',
       dictionary = Some [(JStr ''b'', 0), (JStr ''a'', 1)],
       stats = \<lparr> min_s = JStr ''a'', max_s = JStr ''b'', distinctCount = 0, nullCount = 0 \<rparr> \<rparr>"
  by code_simp

theorem dictionary_coding_roundtrip_witness:
  "\<exists>table column.
     map_of (tables (snd (insert_cs 1 ''t'' stringRows stringStore))) ''t'' = Some table \<and>
     map_of (columns table) ''s'' = Some column \<and>
     dictionary column = Some [(JStr ''b'', 0), (JStr ''a'', 1)] \<and>
     data column = [JNum (Fin 0), JNum (Fin 1), JNum (Fin 0)] \<and>
     map (decodeValue column) (data column) = [JStr ''b'', JStr ''a'', JStr ''b''] \<and>
     fst (scan ''t'' (Some [''s'']) None (snd (insert_cs 1 ''t'' stringRows stringStore))) =
       Inr \<lparr> data_r = stringRows, metadata_r = ScanMetadata 3 3 1 \<rparr>"
proof -
  let ?table = "fst (createTable 0 ''t'' [(''s'', ''string'')] \<lparr> tables = [] \<rparr>)"
  have h1: "map_of (tables stringStore) ''t'' = Some ?table"
    and h2: "tableWf ?table"
    and h5: "rowCount ?table = length ([] :: string list)"
    using createTable_wf[of "[(''s'', ''string'')]" 0 "''t''" "\<lparr> tables = [] \<rparr>"]
    by (simp_all add: stringStore_def)
  have h3: "map_of (schema ?table) ''s'' = Some ''string''"
    by (simp add: createTable_def Let_def)
  have h4: "map_of (columns ?table) ''s'' =
              Some (insertValues ''string'' (newColumn ''s'' ''string'') (map JStr []))"
    by (simp add: createTable_def Let_def insertValues_def)
  have h6: "fieldValues ''s'' stringRows = map JStr [''b'', ''a'', ''b'']"
    by (simp add: fieldValues_def stringRows_def getProp_def plainObject_def)
  have n: "''s'' \<noteq> ''__proto__''" by simp
  from dictionary_coding_roundtrip[OF h1 h2 h3 h4 h5 h6, of 1]
  obtain res st' table' column where
    r: "insert_cs 1 ''t'' stringRows stringStore = (Inr res, st')"
      "map_of (tables st') ''t'' = Some table'"
      "map_of (columns table') ''s'' = Some column"
      "column = insertValues ''string'' (newColumn ''s'' ''string'')
                  (map JStr ([] @ [''b'', ''a'', ''b'']))"
      "map (decodeValue column) (data column) = map JStr ([] @ [''b'', ''a'', ''b''])"
      "scan ''t'' (Some [''s'']) None st' =
                (Inr \<lparr> data_r = map (\<lambda>s. plainObject [(''s'', JStr s)]) ([] @ [''b'', ''a'', ''b'']),
                       metadata_r = ScanMetadata (length ([] @ [''b'', ''a'', ''b'']))
                                      (length ([] @ [''b'', ''a'', ''b''])) 1 \<rparr>, st')"
    using n unfolding Let_def by blast
  from r(1) have s: "snd (insert_cs 1 ''t'' stringRows stringStore) = st'" by simp
  show ?thesis
    unfolding s using r(2,3,4,5,6) roundtrip_example
    by (intro exI[of _ table'] exI[of _ column]) (simp add: stringRows_def)
qed

text \<open>The claim as stated fails in a table whose schema names the string column twice:
  every row gives the column two codes, and the scan of the three rows \<open>b\<close>, \<open>a\<close>, \<open>b\<close>
  returns \<open>b\<close>, \<open>b\<close>, \<open>a\<close>.\<close>

theorem dictionary_coding_counterexample:
  "map_option (\<lambda>table. map_option data (map_of (columns table) ''s''))
     (map_of (tables dupStringStore) ''t'')
     = Some (Some [JNum (Fin 0), JNum (Fin 0), JNum (Fin 1), JNum (Fin 1),
                   JNum (Fin 0), JNum (Fin 0)]) \<and>
   fst (scan ''t'' (Some [''s'']) None dupStringStore)
     = Inr \<lparr> data_r = [plainObject [(''s'', JStr ''b'')], plainObject [(''s'', JStr ''b'')],
                       plainObject [(''s'', JStr ''a'')]],
             metadata_r = ScanMetadata 3 3 1 \<rparr>"
  by code_simp


section \<open>Null handling\<close>


text \<open>The rows \<open>{v: 3}\<close>, \<open>{}\<close>, \<open>{v: 1}\<close> inserted into an empty table: one missing field.
  An unknown operator matches every row but the null one.\<close>

lemma nullFixture_eval: "nullFixture = \<lparr> tables = [(''t'', nullFixtureTable)] \<rparr>"
  by code_simp






section \<open>The row-count invariant\<close>

text \<open>
  Claim C2 (row-count invariant), amended. For every table whose schema names each of
  its columns once, an insert of \<open>k\<close> rows succeeds, reports \<open>k\<close> rows, and makes
  \<open>rowCount\<close>, the number of values and the number of presence flags of every column grow
  by exactly \<open>k\<close>; so if every column had \<open>rowCount\<close> values and flags before, it has
  afterwards.
\<close>

theorem insert_row_count:
  assumes "map_of (tables st) tableName = Some table" and "tableWf table"
  shows "\<exists>res st' table'.
           insert_cs now tableName rows st = (Inr res, st') \<and>
           rowsInserted res = length rows \<and>
           map_of (tables st') tableName = Some table' \<and>
           tableWf table' \<and>
           rowCount table' = rowCount table + length rows \<and>
           map fst (columns table') = map fst (columns table) \<and>
           (\<forall>n c. map_of (columns table) n = Some c \<longrightarrow>
              (\<exists>c'. map_of (columns table') n = Some c' \<and>
                 length (data c') = length (data c) + length rows \<and>
                 length (nullBitmap c') = length (nullBitmap c) + length rows)) \<and>
           (rowCountInv table \<longrightarrow> rowCountInv table')"
proof -
  from insert_cs_columns[OF assms, of now rows] obtain res st' table' where
    r: "insert_cs now tableName rows st = (Inr res, st')" "rowsInserted res = length rows"
      "map_of (tables st') tableName = Some table'" "tableWf table'"
      "rowCount table' = rowCount table + length rows"
      "map fst (columns table') = map fst (columns table)"
    and cs: "\<forall>n c. map_of (columns table) n = Some c \<longrightarrow>
              (\<exists>ty. map_of (schema table) n = Some ty \<and>
                 map_of (columns table') n = Some (insertValues ty c (fieldValues n rows)))"
    by blast
  have lens: "\<exists>c'. map_of (columns table') n = Some c' \<and>
                 length (data c') = length (data c) + length rows \<and>
                 length (nullBitmap c') = length (nullBitmap c) + length rows"
    if "map_of (columns table) n = Some c" for n c
  proof -
    from cs that obtain ty where
      "map_of (columns table') n = Some (insertValues ty c (fieldValues n rows))"
      by blast
    then show ?thesis
      by (simp add: insertValues_lengths fieldValues_def)
  qed
  have inv: "rowCountInv table'" if i: "rowCountInv table"
    unfolding rowCountInv_def list_all_iff
  proof
    fix x assume x: "x \<in> set (columns table')"
    have dist1: "distinct (map fst (columns table'))"
      using r(4) by (simp add: tableWf_def)
    then have m1: "map_of (columns table') (fst x) = Some (snd x)" using x by simp
    from x have "fst x \<in> set (map fst (columns table))" using r(6) by (metis image_eqI list.set_map)
    then obtain c where c: "(fst x, c) \<in> set (columns table)" by auto
    have "distinct (map fst (columns table))" using dist1 r(6) by simp
    with c have mc: "map_of (columns table) (fst x) = Some c" by simp
    from i c have "length (data c) = rowCount table" "length (nullBitmap c) = rowCount table"
      by (auto simp: rowCountInv_def list_all_iff)
    with lens[OF mc] m1 r(5)
    show "length (data (snd x)) = rowCount table' \<and> length (nullBitmap (snd x)) = rowCount table'"
      by fastforce
  qed
  show ?thesis
    using r lens inv
    by (intro exI[of _ res] exI[of _ st'] exI[of _ table']) blast
qed

lemma insert_row_count_example:
  "map_option (\<lambda>t. (rowCount t, columnLengths t))
     (map_of (tables (snd (insert_cs 2 ''t'' [plainObject [(''v'', JNum (Fin 7))], plainObject [(''w'', JNum (Fin 8))]]
                             \<lparr> tables = [(''t'', nullFixtureTable)] \<rparr>))) ''t'')
   = Some (5, [(''v'', 5, 5)])"
  by code_simp

theorem insert_row_count_witness:
  "map_of (tables \<lparr> tables = [(''t'', nullFixtureTable)] \<rparr>) ''t'' = Some nullFixtureTable \<and>
   tableWf nullFixtureTable \<and>
   rowCount nullFixtureTable = 3 \<and> columnLengths nullFixtureTable = [(''v'', 3, 3)] \<and>
   map_option (\<lambda>t. (rowCount t, columnLengths t))
     (map_of (tables (snd (insert_cs 2 ''t'' [plainObject [(''v'', JNum (Fin 7))], plainObject [(''w'', JNum (Fin 8))]]
                             \<lparr> tables = [(''t'', nullFixtureTable)] \<rparr>))) ''t'')
   = Some (3 + 2, [(''v'', 3 + 2, 3 + 2)])"
proof -
  have h1: "map_of (tables \<lparr> tables = [(''t'', nullFixtureTable)] \<rparr>) ''t'' = Some nullFixtureTable"
    by simp
  have h2: "tableWf nullFixtureTable"
    by (simp add: tableWf_def nullFixtureTable_def)
  have h3: "rowCount nullFixtureTable = 3" "columnLengths nullFixtureTable = [(''v'', 3, 3)]"
    by (simp_all add: nullFixtureTable_def nullFixtureColumn_def columnLengths_def)
  show ?thesis
    using insert_row_count [OF h1 h2, of 2 "[plainObject [(''v'', JNum (Fin 7))], plainObject [(''w'', JNum (Fin 8))]]"]
      h1 h2 h3 insert_row_count_example
    by simp
qed

text \<open>The claim as stated fails on a schema that names a column twice: one inserted row
  gives the column two values and two flags, and \<open>rowCount\<close> 1.\<close>

theorem row_count_counterexample:
  "map_option (\<lambda>t. (rowCount t, columnLengths t)) (map_of (tables dupSchemaStore) ''t'')
     = Some (0, [(''a'', 0, 0)]) \<and>
   fst (insert_cs 1 ''t'' [plainObject [(''a'', JNum (Fin 1))]] dupSchemaStore)
     = Inr \<lparr> rowsInserted = 1, compressionRatio_i = Fin (16 / 9) \<rparr> \<and>
   map_option (\<lambda>t. (rowCount t, columnLengths t))
     (map_of (tables (snd (insert_cs 1 ''t'' [plainObject [(''a'', JNum (Fin 1))]] dupSchemaStore))) ''t'')
     = Some (1, [(''a'', 2, 2)])"
  by code_simp


section \<open>Parsing\<close>

lemma rmatch_suffix:
  "(s', c') \<in> set (rmatch icase re (s, c)) \<Longrightarrow> \<exists>k\<le>length s. s' = drop k s"
proof (induction re arbitrary: s c s' c')
  case (Lit l)
  then show ?case
    by (cases "length l \<le> length s") (auto split: if_splits intro: exI[of _ "length s"])
next
  case (One p)
  then show ?case by (auto split: list.splits if_splits intro: exI[of _ 1])
next
  case (Plus p)
  then obtain k where "s' = drop k s" "k \<le> length (takeWhile p s)" by auto
  moreover have "length (takeWhile p s) \<le> length s" by (rule length_takeWhile_le)
  ultimately show ?case by (intro exI[of _ k]) simp
next
  case (Star p)
  then obtain k where "s' = drop k s" "k \<le> length (takeWhile p s)" by auto
  moreover have "length (takeWhile p s) \<le> length s" by (rule length_takeWhile_le)
  ultimately show ?case by (intro exI[of _ k]) simp
next
  case (LazyStar p)
  then obtain k where "s' = drop k s" "k \<le> length (takeWhile p s)" by auto
  moreover have "length (takeWhile p s) \<le> length s" by (rule length_takeWhile_le)
  ultimately show ?case by (intro exI[of _ k]) simp
next
  case (Seq a b)
  then obtain s1 c1 where 1: "(s1, c1) \<in> set (rmatch icase a (s, c))"
    and 2: "(s', c') \<in> set (rmatch icase b (s1, c1))" by auto
  from Seq.IH(1)[OF 1] obtain k1 where k1: "k1 \<le> length s" "s1 = drop k1 s" by blast
  from Seq.IH(2)[OF 2] obtain k2 where k2: "k2 \<le> length s1" "s' = drop k2 s1" by blast
  show ?case using k1 k2 by (intro exI[of _ "k1 + k2"]) (auto simp: add.commute)
next
  case (Alt a b)
  then show ?case by auto
next
  case (Opt a)
  then show ?case by (auto intro: exI[of _ 0])
next
  case (Group n a)
  then show ?case by auto
next
  case (Backref n)
  show ?case
  proof (cases "c n")
    case None
    with Backref show ?thesis by (auto intro: exI[of _ 0])
  next
    case (Some t)
    have "drop (length t) s = drop (min (length t) (length s)) s"
      by (cases "length t \<le> length s") (simp_all add: min_def)
    with Some Backref have "s' = drop (min (length t) (length s)) s"
      by (auto split: if_splits)
    then show ?thesis by (intro exI[of _ "min (length t) (length s)"]) simp
  qed
qed (auto intro: exI[of _ 0] split: if_splits)

lemma rmatch_Seq_nonempty:
  "rmatch icase (Seq a b) st \<noteq> [] \<Longrightarrow>
   \<exists>st1 \<in> set (rmatch icase a st). rmatch icase b st1 \<noteq> []"
  by auto

lemma matchRegex_start:
  "matchRegex icase re s = Some m \<Longrightarrow> \<exists>j\<le>length s. rmatch icase re (drop j s, Map.empty) \<noteq> []"
proof (induction s)
  case Nil
  then show ?case by (auto split: list.splits)
next
  case (Cons x xs)
  show ?case
  proof (cases "rmatch icase re (x # xs, Map.empty)")
    case Nil
    with Cons.prems have "matchRegex icase re xs = Some m" by simp
    from Cons.IH[OF this] obtain j where "j \<le> length xs" "rmatch icase re (drop j xs, Map.empty) \<noteq> []"
      by blast
    then show ?thesis by (intro exI[of _ "Suc j"]) simp
  next
    case (Cons a list)
    then show ?thesis by (intro exI[of _ 0]) simp
  qed
qed

lemma occursIgnoringCase_drop:
  "k \<le> length s \<Longrightarrow> litMatches True p (drop k s) \<Longrightarrow> occursIgnoringCase p s"
  unfolding occursIgnoringCase_def list_ex_iff by (intro bexI[of _ k]) auto

lemma selectPattern_needs_from:
  assumes "matchRegex True selectPattern s = Some m"
  shows "occursIgnoringCase ''FROM'' s"
proof -
  from matchRegex_start[OF assms] obtain j where j: "j \<le> length s"
    and ne: "rmatch True selectPattern (drop j s, Map.empty) \<noteq> []" by blast
  let ?r4 = "Seq (Lit ''FROM'') Eps"
  let ?r3 = "Seq (Plus isSpaceChar) ?r4"
  let ?r2 = "Seq (Group 1 (LazyStar isDotChar)) ?r3"
  let ?r1 = "Seq (Plus isSpaceChar) ?r2"
  have sp: "selectPattern = Seq (Lit ''SELECT'') ?r1"
    by (simp add: selectPattern_def seqs_def)
  from ne obtain st1 where 1: "st1 \<in> set (rmatch True (Lit ''SELECT'') (drop j s, Map.empty))"
    and n1: "rmatch True ?r1 st1 \<noteq> []"
    unfolding sp using rmatch_Seq_nonempty by blast
  from n1 obtain st2 where 2: "st2 \<in> set (rmatch True (Plus isSpaceChar) st1)"
    and n2: "rmatch True ?r2 st2 \<noteq> []" using rmatch_Seq_nonempty by blast
  from n2 obtain st3 where 3: "st3 \<in> set (rmatch True (Group 1 (LazyStar isDotChar)) st2)"
    and n3: "rmatch True ?r3 st3 \<noteq> []" using rmatch_Seq_nonempty by blast
  from n3 obtain st4 where 4: "st4 \<in> set (rmatch True (Plus isSpaceChar) st3)"
    and n4: "rmatch True ?r4 st4 \<noteq> []" using rmatch_Seq_nonempty by blast
  from n4 have lit: "litMatches True ''FROM'' (fst st4)"
    by (cases st4) (auto split: if_splits)
  obtain k1 where k1: "k1 \<le> length (drop j s)" "fst st1 = drop k1 (drop j s)"
    using rmatch_suffix[of "fst st1" "snd st1" True "Lit ''SELECT''" "drop j s" Map.empty] 1
    by auto
  obtain k2 where k2: "k2 \<le> length (fst st1)" "fst st2 = drop k2 (fst st1)"
    using rmatch_suffix[of "fst st2" "snd st2" True "Plus isSpaceChar" "fst st1" "snd st1"] 2
    by auto
  obtain k3 where k3: "k3 \<le> length (fst st2)" "fst st3 = drop k3 (fst st2)"
    using rmatch_suffix[of "fst st3" "snd st3" True "Group 1 (LazyStar isDotChar)" "fst st2" "snd st2"] 3
    by auto
  obtain k4 where k4: "k4 \<le> length (fst st3)" "fst st4 = drop k4 (fst st3)"
    using rmatch_suffix[of "fst st4" "snd st4" True "Plus isSpaceChar" "fst st3" "snd st3"] 4
    by auto
  have eq: "fst st4 = drop (j + k1 + k2 + k3 + k4) s"
    using k1 k2 k3 k4 by (simp add: add.commute add.left_commute)
  have le: "j + k1 + k2 + k3 + k4 \<le> length s"
    using j k1 k2 k3 k4 by simp
  from occursIgnoringCase_drop[OF le] lit eq show ?thesis by simp
qed


text \<open>
  Claim C7 (parser rejection), amended. Parsing a statement that does not start with
  \<open>SELECT\<close> (after trimming, ignoring case), such as \<open>DELETE FROM t\<close>, fails with
  UnsupportedStatement. Parsing a \<open>SELECT\<close> statement that has no \<open>SELECT ... FROM\<close> span
  fails with InvalidSelectSyntax, and such is every \<open>SELECT\<close> statement in which \<open>FROM\<close>
  does not occur, like \<open>SELECT x y\<close>: the \<open>SELECT ... FROM\<close> pattern is tried before the
  \<open>FROM\<close> pattern. Parsing a \<open>SELECT\<close> statement that has the \<open>SELECT ... FROM\<close> span and
  nowhere a \<open>FROM\<close> followed by white space and a table name, such as \<open>SELECT x FROM\<close>,
  fails with MissingFromClause.
\<close>

theorem parse_rejection:
  "(\<not> startsWith (toUpperCase (normalizeSql sql)) ''SELECT'' \<longrightarrow>
      parse sql = Inl UnsupportedStatement) \<and>
   (startsWith (toUpperCase (normalizeSql sql)) ''SELECT'' \<and>
    matchRegex True selectPattern (normalizeSql sql) = None \<longrightarrow>
      parse sql = Inl InvalidSelectSyntax) \<and>
   (startsWith (toUpperCase (normalizeSql sql)) ''SELECT'' \<and>
    \<not> occursIgnoringCase ''FROM'' (normalizeSql sql) \<longrightarrow>
      parse sql = Inl InvalidSelectSyntax) \<and>
   (startsWith (toUpperCase (normalizeSql sql)) ''SELECT'' \<and>
    matchRegex True selectPattern (normalizeSql sql) \<noteq> None \<and>
    matchRegex True fromPattern (normalizeSql sql) = None \<longrightarrow>
      parse sql = Inl MissingFromClause)"
proof -
  have a: "parse sql = Inl UnsupportedStatement"
    if "\<not> startsWith (toUpperCase (normalizeSql sql)) ''SELECT''"
    using that by (simp add: parse_def Let_def)
  have b: "parse sql = Inl InvalidSelectSyntax"
    if "startsWith (toUpperCase (normalizeSql sql)) ''SELECT''"
      and "matchRegex True selectPattern (normalizeSql sql) = None"
    using that by (simp add: parse_def Let_def)
  have c: "parse sql = Inl InvalidSelectSyntax"
    if "startsWith (toUpperCase (normalizeSql sql)) ''SELECT''"
      and "\<not> occursIgnoringCase ''FROM'' (normalizeSql sql)"
  proof -
    from that(2) selectPattern_needs_from
    have "matchRegex True selectPattern (normalizeSql sql) = None"
      by (cases "matchRegex True selectPattern (normalizeSql sql)") auto
    with that(1) show ?thesis by (rule b)
  qed
  have d: "parse sql = Inl MissingFromClause"
    if "startsWith (toUpperCase (normalizeSql sql)) ''SELECT''"
      and "matchRegex True selectPattern (normalizeSql sql) \<noteq> None"
      and "matchRegex True fromPattern (normalizeSql sql) = None"
  proof -
    from that(2) obtain m where "matchRegex True selectPattern (normalizeSql sql) = Some m"
      by blast
    with that(1,3) show ?thesis
      by (simp add: parse_def Let_def split_beta)
  qed
  from a b c d show ?thesis by blast
qed

lemma parse_rejection_examples:
  "\<not> startsWith (toUpperCase (normalizeSql ''DELETE FROM t'')) ''SELECT''"
  "startsWith (toUpperCase (normalizeSql ''SELECT x y'')) ''SELECT''"
  "\<not> occursIgnoringCase ''FROM'' (normalizeSql ''SELECT x y'')"
  "startsWith (toUpperCase (normalizeSql ''SELECT x FROM'')) ''SELECT''"
  "matchRegex True selectPattern (normalizeSql ''SELECT x FROM'') \<noteq> None"
  "matchRegex True fromPattern (normalizeSql ''SELECT x FROM'') = None"
  by code_simp+

theorem parse_rejection_witness:
  "parse ''DELETE FROM t'' = Inl (Error ''Only SELECT queries are supported'') \<and>
   parse ''SELECT x y'' = Inl (Error ''Invalid SELECT syntax'') \<and>
   parse ''SELECT x FROM'' = Inl (Error ''FROM clause is required'')"
  using parse_rejection [of "''DELETE FROM t''"] parse_rejection [of "''SELECT x y''"]
    parse_rejection [of "''SELECT x FROM''"] parse_rejection_examples
  by (simp add: UnsupportedStatement_def InvalidSelectSyntax_def MissingFromClause_def)

text \<open>The claim as stated fails: \<open>SELECT x y\<close> is rejected with InvalidSelectSyntax, not
  with MissingFromClause.\<close>

theorem parse_missing_from_counterexample:
  "parse ''SELECT x y'' = Inl InvalidSelectSyntax \<and>
   parse ''SELECT x y'' \<noteq> Inl MissingFromClause"
  by code_simp

text \<open>
  Claim C3 (WHERE parsing and evaluation). The claim does not hold of the code: in the
  pattern of \<open>parseWhere\<close> the alternative \<open>>\<close> is tried before \<open>>=\<close> (and \<open><\<close> before
  \<open><=\<close>), and the lazy group for the value, followed by an empty back-reference, matches
  the empty string whenever the value is not quoted. So \<open>age >= 30\<close> is parsed as the
  operator \<open>>\<close> with the value \<open>parseFloat('')\<close>, which is \<open>NaN\<close>, and a scan with it
  keeps no row; only a quoted value is read.
\<close>

theorem parseWhere_misparses:
  "parseWhere ''age >= 30'' = Inr \<lparr> column_p = ''age'', operator_p = ''>'', value_p = JNum NaN \<rparr> \<and>
   parseWhere ''age <= 30'' = Inr \<lparr> column_p = ''age'', operator_p = ''<'', value_p = JNum NaN \<rparr> \<and>
   parseWhere ''age > 30'' = Inr \<lparr> column_p = ''age'', operator_p = ''>'', value_p = JNum NaN \<rparr> \<and>
   parseWhere ''age > '30' '' = Inr \<lparr> column_p = ''age'', operator_p = ''>'', value_p = JNum (Fin 30) \<rparr> \<and>
   map_sum id data_x (fst (execute numberToString 2 ''SELECT * FROM t WHERE v >= 1''
                            \<lparr> store = nullFixture, queryHistory = [] \<rparr>)) = Inr []"
  by code_simp


section \<open>LIMIT 0\<close>

text \<open>
  Claim C9 (LIMIT 0), amended. The limit of a parsed statement is the number after the
  first \<open>LIMIT\<close> that is followed by white space and digits, wherever in the statement it
  stands. A query whose limit is 0 is executed exactly as the same query without a
  limit: \<open>executeQuery\<close> truncates nothing (it returns as many rows as the scan or the
  aggregation gave it, and the same rows in the same order when there is no ORDER BY),
  the execution plan is the plan of the query without limit, which has no \<open>Limit\<close> step,
  and \<open>execute\<close> on a statement with such a limit returns that result and records that
  plan.
\<close>

theorem limit_zero_is_no_limit:
  "(parse sql = Inr query \<longrightarrow>
      limit_q query =
        map_option (\<lambda>m. parseIntDigits (groupOr m 1))
          (matchRegex True limitPattern (normalizeSql sql))) \<and>
   (limit_q query = Some (Fin 0) \<longrightarrow>
      executeQuery numToStr query st = executeQuery numToStr (query\<lparr> limit_q := None \<rparr>) st \<and>
      createExecutionPlan numToStr query
        = createExecutionPlan numToStr (query\<lparr> limit_q := None \<rparr>) \<and>
      ''Limit'' \<notin> set (map operation (createExecutionPlan numToStr query))) \<and>
   (limit_q query = Some (Fin 0) \<and> dispatchQuery numToStr query st = (Inr result, st') \<longrightarrow>
      (\<exists>result'. executeQuery numToStr query st = (Inr result', st') \<and>
         length (data_r result') = length (data_r result) \<and>
         (orderBy_q query = None \<longrightarrow> data_r result' = data_r result))) \<and>
   (parse sql = Inr query \<and> limit_q query = Some (Fin 0) \<longrightarrow>
      map_sum id (\<lambda>r. (data_x r, metadata_x r, executionPlan (execution r)))
        (fst (execute numToStr now sql engine))
      = map_sum id (\<lambda>r. (data_r r, metadata_r r,
                           Some (createExecutionPlan numToStr (query\<lparr> limit_q := None \<rparr>))))
          (fst (executeQuery numToStr (query\<lparr> limit_q := None \<rparr>) (store engine))))"
proof -
  have p: "limit_q query =
        map_option (\<lambda>m. parseIntDigits (groupOr m 1))
          (matchRegex True limitPattern (normalizeSql sql))" if "parse sql = Inr query"
    using that
    by (auto simp: parse_def Let_def split_beta split: if_splits option.splits sum.splits)
  have q: "executeQuery numToStr query st = executeQuery numToStr (query\<lparr> limit_q := None \<rparr>) st \<and>
      createExecutionPlan numToStr query
        = createExecutionPlan numToStr (query\<lparr> limit_q := None \<rparr>) \<and>
      ''Limit'' \<notin> set (map operation (createExecutionPlan numToStr query))"
    if z: "limit_q query = Some (Fin 0)" for st
  proof -
    have lg: "\<not> limitGiven query" "\<not> limitGiven (query\<lparr> limit_q := None \<rparr>)"
      using z by (simp_all add: limitGiven_def)
    have eq: "orderAndLimit (query\<lparr> limit_q := None \<rparr>) = orderAndLimit query"
      using lg by (simp add: orderAndLimit_def fun_eq_iff)
    have 1: "executeQuery numToStr query st = executeQuery numToStr (query\<lparr> limit_q := None \<rparr>) st"
      unfolding executeQuery_def eq by (simp add: dispatchQuery_def)
    have 2: "createExecutionPlan numToStr query
             = createExecutionPlan numToStr (query\<lparr> limit_q := None \<rparr>)"
      using lg by (simp add: createExecutionPlan_def Let_def cong: option.case_cong if_cong)
    have 3: "''Limit'' \<notin> set (map operation (createExecutionPlan numToStr query))"
      using lg by (simp add: createExecutionPlan_def Let_def split: option.splits)
    from 1 2 3 show ?thesis by simp
  qed
  have r: "\<exists>result'. executeQuery numToStr query st = (Inr result', st') \<and>
         length (data_r result') = length (data_r result) \<and>
         (orderBy_q query = None \<longrightarrow> data_r result' = data_r result)"
    if z: "limit_q query = Some (Fin 0)"
      and d: "dispatchQuery numToStr query st = (Inr result, st')"
  proof -
    have lg: "\<not> limitGiven query" using z by (simp add: limitGiven_def)
    have "length (orderAndLimit query (data_r result)) = length (data_r result)"
      using lg
      by (simp add: orderAndLimit_def applyOrderBy_def length_arraySort split: option.splits)
    moreover have "orderBy_q query = None \<longrightarrow>
        orderAndLimit query (data_r result) = data_r result"
      using lg by (simp add: orderAndLimit_def)
    ultimately show ?thesis
      using d by (simp add: executeQuery_def)
  qed
  have s: "map_sum id (\<lambda>r. (data_x r, metadata_x r, executionPlan (execution r)))
        (fst (execute numToStr now sql engine))
      = map_sum id (\<lambda>r. (data_r r, metadata_r r,
                           Some (createExecutionPlan numToStr (query\<lparr> limit_q := None \<rparr>))))
          (fst (executeQuery numToStr (query\<lparr> limit_q := None \<rparr>) (store engine)))"
    if "parse sql = Inr query" and z: "limit_q query = Some (Fin 0)"
  proof -
    from q[OF z, of "store engine"]
    have e: "executeQuery numToStr (query\<lparr> limit_q := None \<rparr>) (store engine)
             = executeQuery numToStr query (store engine)"
      and c: "createExecutionPlan numToStr (query\<lparr> limit_q := None \<rparr>)
             = createExecutionPlan numToStr query"
      by simp_all
    show ?thesis
      unfolding e c using that(1)
      by (cases "executeQuery numToStr query (store engine)";
          cases "fst (executeQuery numToStr query (store engine))")
         (simp_all add: execute_def Let_def)
  qed
  from p q r s show ?thesis by blast
qed

lemma limit_zero_example:
  "parse ''SELECT * FROM t LIMIT 0''
   = Inr \<lparr> type_q = ''SELECT'', table_q = ''t'', columns_q = [''*''], where_q = None,
           groupBy_q = None, orderBy_q = None, limit_q = Some (Fin 0), aggregates_q = [] \<rparr>"
  "executeQuery numberToString
     \<lparr> type_q = ''SELECT'', table_q = ''t'', columns_q = [''*''], where_q = None,
       groupBy_q = None, orderBy_q = None, limit_q = None, aggregates_q = [] \<rparr> nullFixture
   = (Inr \<lparr> data_r = [plainObject [(''v'', JNum (Fin 3))], plainObject [(''v'', JNull)],
                      plainObject [(''v'', JNum (Fin 1))]],
            metadata_r = ScanMetadata 3 3 1 \<rparr>, nullFixture)"
  by code_simp+

theorem limit_zero_is_no_limit_witness:
  "map_sum id (\<lambda>r. (data_x r, map operation (the (executionPlan (execution r)))))
     (fst (execute numberToString 2 ''SELECT * FROM t LIMIT 0''
             \<lparr> store = nullFixture, queryHistory = [] \<rparr>))
   = Inr ([plainObject [(''v'', JNum (Fin 3))], plainObject [(''v'', JNull)],
           plainObject [(''v'', JNum (Fin 1))]],
          [''Table Scan'', ''Projection''])"
proof -
  let ?q = "\<lparr> type_q = ''SELECT'', table_q = ''t'', columns_q = [''*''], where_q = None,
        groupBy_q = None, orderBy_q = None, limit_q = Some (Fin 0), aggregates_q = [] \<rparr>"
  let ?e = "\<lparr> store = nullFixture, queryHistory = [] \<rparr>"
  note t = limit_zero_is_no_limit[where sql = "''SELECT * FROM t LIMIT 0''" and query = ?q
      and numToStr = numberToString and now = 2 and engine = ?e]
  note s = t[THEN conjunct2, THEN conjunct2, THEN conjunct2]
  have "map_sum id (\<lambda>r. (data_x r, metadata_x r, executionPlan (execution r)))
        (fst (execute numberToString 2 ''SELECT * FROM t LIMIT 0'' ?e))
      = Inr ([plainObject [(''v'', JNum (Fin 3))], plainObject [(''v'', JNull)],
              plainObject [(''v'', JNum (Fin 1))]], ScanMetadata 3 3 1,
             Some (createExecutionPlan numberToString (?q\<lparr> limit_q := None \<rparr>)))"
    using s limit_zero_example by simp
  then show ?thesis
    by (cases "fst (execute numberToString 2 ''SELECT * FROM t LIMIT 0'' ?e)")
       (auto simp: createExecutionPlan_def limitGiven_def)
qed

text \<open>The claim as stated fails for a statement that ends in \<open>LIMIT 0\<close> and has an earlier
  \<open>LIMIT\<close> with digits, here inside a quoted value: the parsed limit is 1, and one of
  the three matching rows is returned.\<close>

theorem limit_zero_counterexample_text:
  "map_sum id (\<lambda>q. (limit_q q, where_q q))
     (parse ''SELECT * FROM t WHERE v != 'LIMIT 1' LIMIT 0'')
     = Inr (Some (Fin 1),
            Some \<lparr> column_p = ''v'', operator_p = ''!='', value_p = JStr ''LIMIT 1'' \<rparr>) \<and>
   map_sum id data_r
     (fst (scan ''t'' None
             (Some \<lparr> column_p = ''v'', operator_p = ''!='', value_p = JStr ''LIMIT 1'' \<rparr>)
             orderFixture))
     = Inr [plainObject [(''v'', JNum (Fin 3))], plainObject [(''v'', JNum (Fin 1))],
            plainObject [(''v'', JNum (Fin 2))]] \<and>
   map_sum id data_x
     (fst (execute numberToString 2 ''SELECT * FROM t WHERE v != 'LIMIT 1' LIMIT 0''
             \<lparr> store = orderFixture, queryHistory = [] \<rparr>))
     = Inr [plainObject [(''v'', JNum (Fin 3))]]"
  by code_simp


section \<open>The store is only read\<close>

lemma scan_store: "snd (scan tableName cols predicate st) = st"
  by (simp add: scan_def split: option.splits)

lemma aggregate_store: "snd (aggregate numToStr tableName aggregates groupBy predicate st) = st"
proof (cases "map_of (tables st) tableName")
  case None
  then show ?thesis by (simp add: aggregate_def)
next
  case (Some table)
  obtain r st' where r: "scan tableName None predicate st = (r, st')"
    by (cases "scan tableName None predicate st")
  with scan_store[of tableName None predicate st] have "st' = st" by simp
  with Some r show ?thesis by (cases r) (simp_all add: aggregate_def)
qed

text \<open>So a query leaves the store of the engine as it is.\<close>

lemma executeQuery_read_only: "snd (executeQuery numToStr query st) = st"
proof -
  obtain r st' where r: "dispatchQuery numToStr query st = (r, st')"
    by (cases "dispatchQuery numToStr query st")
  have "snd (dispatchQuery numToStr query st) = st"
    using scan_store aggregate_store by (simp add: dispatchQuery_def)
  with r have "st' = st" by simp
  with r show ?thesis by (cases r) (simp_all add: executeQuery_def)
qed

text \<open>
  Claim C10 (read-only frame). For every table name, column selection, aggregate list,
  group-by column and predicate, \<open>scan\<close> and \<open>aggregate\<close> return the store they were
  given: every table, with its schema, columns, row count and metadata, is the same
  after the call, whether the call returns a result or an error.
\<close>

theorem scan_aggregate_read_only:
  "snd (scan tableName cols predicate st) = st \<and>
   snd (aggregate numToStr tableName aggregates groupBy predicate st) = st"
  using scan_store aggregate_store by simp

text \<open>\<open>createTable\<close> and \<open>insert\<close> do change the store; \<open>scan\<close> and \<open>aggregate\<close>, on a
  table that exists and on one that does not, do not.\<close>

lemma read_only_examples:
  "snd (createTable 5 ''u'' [(''x'', ''float'')] nullFixture) \<noteq> nullFixture"
  "snd (insert_cs 5 ''t'' [plainObject [(''v'', JNum (Fin 7))]] nullFixture) \<noteq> nullFixture"
  "fst (scan ''t'' (Some [''v'']) None nullFixture)
   = Inr \<lparr> data_r = [plainObject [(''v'', JNum (Fin 3))], plainObject [(''v'', JNull)],
                   plainObject [(''v'', JNum (Fin 1))]],
           metadata_r = ScanMetadata 3 3 1 \<rparr>"
  "fst (aggregate numberToString ''u''
         [\<lparr> function_a = ''COUNT'', column_a = ''*'', alias_a = None \<rparr>] None None nullFixture)
   = Inl (Error ''Table u not found'')"
  by code_simp+

theorem scan_aggregate_read_only_witness:
  "snd (scan ''t'' (Some [''v'']) None nullFixture) = nullFixture \<and>
   snd (aggregate numberToString ''u''
         [\<lparr> function_a = ''COUNT'', column_a = ''*'', alias_a = None \<rparr>] None None nullFixture)
     = nullFixture \<and>
   snd (createTable 5 ''u'' [(''x'', ''float'')] nullFixture) \<noteq> nullFixture \<and>
   snd (insert_cs 5 ''t'' [plainObject [(''v'', JNum (Fin 7))]] nullFixture) \<noteq> nullFixture"
  using scan_aggregate_read_only [of "''t''" "Some [''v'']" None nullFixture numberToString]
    scan_aggregate_read_only [where st = nullFixture and numToStr = numberToString
       and tableName = "''u''" and predicate = None and groupBy = None
       and aggregates = "[\<lparr> function_a = ''COUNT'', column_a = ''*'', alias_a = None \<rparr>]"]
    read_only_examples(1,2)
  by simp


section \<open>The history\<close>

text \<open>Every call of \<open>execute\<close> appends exactly one record, which says whether the call
  succeeded; a failure is returned to the caller.\<close>

lemma execute_appends_one:
  "\<exists>r. queryHistory (snd (execute numToStr now sql engine)) = queryHistory engine @ [r] \<and>
        sql_e r = sql \<and>
        (case fst (execute numToStr now sql engine) of
           Inl e \<Rightarrow> \<not> success r \<and> error_e r = Some e
         | Inr res \<Rightarrow> success r \<and> error_e r = None \<and> execution res = r \<and>
                      rowsAffected r = Some (length (data_x res)))"
  by (auto simp: execute_def Let_def split: sum.splits prod.splits)

lemma getHistory_positive:
  "0 < n \<Longrightarrow> getHistory (Some n) engine = take (nat n) (rev (queryHistory engine))"
proof -
  assume n: "0 < n"
  let ?h = "queryHistory engine"
  have "sliceFrom ?h (- n) = drop (length ?h - nat n) ?h"
    using n by (auto simp: sliceFrom_def Let_def max_def nat_diff_distrib' intro: arg_cong2[of _ _ _ _ drop])
  then show ?thesis by (simp add: getHistory_def Let_def take_rev)
qed

lemma getHistory_default: "getHistory None engine = take 10 (rev (queryHistory engine))"
  using getHistory_positive[of 10 engine] by (simp add: getHistory_def)

lemma getHistory_clearHistory: "getHistory limit (clearHistory engine) = []"
  by (simp add: getHistory_def clearHistory_def sliceFrom_def Let_def)

text \<open>
  Claim C8 (history integrity). One part of the claim does not hold of the code:
  \<open>getHistory(0)\<close> is \<open>queryHistory.slice(-0).reverse()\<close>, and \<open>slice(-0)\<close> is \<open>slice(0)\<close>, the
  whole array; so \<open>getHistory(0)\<close> returns every record, not at most 0. After two calls
  of \<open>execute\<close>, one that fails and one that succeeds, it returns two records.
\<close>

theorem getHistory_zero_returns_all:
  "getHistory (Some 0) engine = rev (queryHistory engine) \<and>
   map sql_e (getHistory (Some 0)
     (snd (execute numberToString 3 ''SELECT * FROM t''
        (snd (execute numberToString 2 ''DELETE FROM t''
           \<lparr> store = nullFixture, queryHistory = [] \<rparr>)))))
   = [''SELECT * FROM t'', ''DELETE FROM t'']"
proof -
  have "getHistory (Some 0) engine = rev (queryHistory engine)"
    by (simp add: getHistory_def sliceFrom_def)
  moreover have "map sql_e (getHistory (Some 0)
     (snd (execute numberToString 3 ''SELECT * FROM t''
        (snd (execute numberToString 2 ''DELETE FROM t''
           \<lparr> store = nullFixture, queryHistory = [] \<rparr>)))))
   = [''SELECT * FROM t'', ''DELETE FROM t'']"
    by code_simp
  ultimately show ?thesis by simp
qed


end
